theory Spec2Isabelle
  imports Main
begin

section \<open>Python values used by \<open>server/routers/api.py\<close>\<close>

text \<open>
  A Python \<open>str\<close> is a \<open>string\<close>: one \<open>char\<close> per code point, for the code
  points below 256.  An \<open>Optional[str]\<close> is a \<open>string option\<close>; Python's truth
  test on it (\<open>if x:\<close>, \<open>x or d\<close>) is false for \<open>None\<close> and for the empty string.
\<close>

fun truthy :: "string option \<Rightarrow> bool" where
  "truthy None = False"
| "truthy (Some s) = (s \<noteq> [])"

text \<open>\<open>x or d\<close> for an optional string \<open>x\<close> and a string \<open>d\<close>.\<close>

fun py_or :: "string option \<Rightarrow> string \<Rightarrow> string" where
  "py_or None d = d"
| "py_or (Some s) d = (if s \<noteq> [] then s else d)"

text \<open>The text an f-string puts for \<open>{x}\<close>: \<open>None\<close> is rendered as the word None.\<close>

fun py_format :: "string option \<Rightarrow> string" where
  "py_format None = ''None''"
| "py_format (Some s) = s"

text \<open>
  \<open>str.isspace\<close> on one character, for the code points below 256: tab, line feed,
  vertical tab, form feed, carriage return, the four separators 28 to 31, space, next
  line (133) and no-break space (160).
\<close>

definition isspace :: "char \<Rightarrow> bool" where
  "isspace c = (of_char c \<in> {9, 10, 11, 12, 13, 28, 29, 30, 31, 32, 133, 160 :: nat})"

text \<open>\<open>s.strip()\<close>: whitespace removed at both ends.\<close>

definition strip :: "string \<Rightarrow> string" where
  "strip s = rev (dropWhile isspace (rev (dropWhile isspace s)))"

text \<open>
  \<open>s.split(',')\<close>: the pieces between the commas, in order; a string with \<open>n\<close> commas
  has \<open>n + 1\<close> pieces, some of them possibly empty.
\<close>

fun split_comma :: "string \<Rightarrow> string list" where
  "split_comma [] = [[]]"
| "split_comma (c # cs) =
     (if c = CHR '','' then [] # split_comma cs
      else (case split_comma cs of
              [] \<Rightarrow> [[c]]
            | t # ts \<Rightarrow> (c # t) # ts))"

text \<open>\<open>','.join(xs)\<close>, as the client of the API encodes a list of patterns.\<close>

fun join_comma :: "string list \<Rightarrow> string" where
  "join_comma [] = []"
| "join_comma [x] = x"
| "join_comma (x # y # ys) = x @ CHR '','' # join_comma (y # ys)"

section \<open>Pattern normalisation of the GET adapter\<close>

text \<open>
  The set comprehension of \<open>ingest_repository_get\<close>:
  \<open>{p.strip() for p in patterns.split(',') if p.strip()}\<close>.
  \<open>pattern_tokens\<close> is the sequence the comprehension runs through, before the set
  forgets order and repetition.
\<close>

definition pattern_tokens :: "string \<Rightarrow> string list" where
  "pattern_tokens s = filter (\<lambda>p. p \<noteq> []) (map strip (split_comma s))"

definition parse_patterns :: "string \<Rightarrow> string set" where
  "parse_patterns s = set (pattern_tokens s)"

text \<open>
  The guard around it: \<open>include_set = None; if include_patterns: include_set = {...}\<close>.
  An absent parameter and the empty string both leave the set unset.
\<close>

fun normalize_patterns :: "string option \<Rightarrow> string set option" where
  "normalize_patterns None = None"
| "normalize_patterns (Some s) = (if s \<noteq> [] then Some (parse_patterns s) else None)"

section \<open>Data model\<close>

text \<open>
  \<open>class IngestRequest(BaseModel)\<close>.  \<open>max_file_size\<close> is an \<open>Optional[int]\<close> with
  default \<open>10 * 1024 * 1024\<close>; the pattern fields are \<open>Optional[Set[str]]\<close>.
\<close>

record IngestRequest =
  source :: string
  max_file_size :: "int option"
  include_patterns :: "string set option"
  exclude_patterns :: "string set option"
  branch :: "string option"

text \<open>
  The constraints the model declares: \<open>source\<close> is required (\<open>Field(...)\<close>) and carries
  no length constraint; \<open>max_file_size\<close> has \<open>ge=1024\<close> and
  \<open>le=100 * 1024 * 1024\<close>, which bind an integer and let \<open>None\<close> through.
\<close>

definition valid_IngestRequest :: "IngestRequest \<Rightarrow> bool" where
  "valid_IngestRequest b =
     (case max_file_size b of
        None \<Rightarrow> True
      | Some n \<Rightarrow> 1024 \<le> n \<and> n \<le> 100 * 1024 * 1024)"

text \<open>\<open>class IngestResponse(BaseModel)\<close>; the two dictionaries are \<open>Dict[str, str]\<close>.\<close>

record IngestResponse =
  success :: bool
  data :: "(string \<rightharpoonup> string) option"
  error :: "string option"
  metadata :: "(string \<rightharpoonup> string) option"

text \<open>
  Modelled from the spec: the class \<open>IngestionQuery\<close> of \<open>gitingest.query_parsing\<close>,
  which the handler imports and whose declaration lies outside \<open>server/routers/api.py\<close>.
  The spec's ResolvedQuery "carries at minimum" a url, a user name and a repository
  name (each possibly absent), a slug (always present), a branch (possibly absent) and
  a subpath.  These are the fields the handler reads; the record is extensible, so a
  query may carry anything else.  The field \<open>branch\<close> of the source is
  \<open>query_branch\<close> here, the name \<open>branch\<close> being the request's.
\<close>

record IngestionQuery =
  url :: "string option"
  user_name :: "string option"
  repo_name :: "string option"
  slug :: string
  query_branch :: "string option"
  subpath :: string

text \<open>
  Modelled from the spec: the invariant of the resolved query, "url (present iff source
  is remote), user_name/repo_name (present iff url present)".  The resolver that
  establishes it lies outside \<open>server/routers/api.py\<close>.  A field is present when it
  holds a non-empty string, which is what the handler's tests \<open>if query.url\<close> and
  \<open>if query.user_name\<close> ask.
\<close>

definition conforming :: "'x IngestionQuery_scheme \<Rightarrow> bool" where
  "conforming query =
     (truthy (user_name query) = truthy (url query)
      \<and> truthy (repo_name query) = truthy (url query))"

text \<open>
  What a collaborator can raise: an instance of \<open>ValueError\<close> (or of a subclass), or any
  other \<open>Exception\<close>.  The string is \<open>str(e)\<close>.
\<close>

datatype exn = ValueError string | OtherException string

text \<open>
  How a handler ends: it returns a value, or it raises
  \<open>HTTPException(status_code, detail)\<close>.
\<close>

datatype 'a outcome = Returned 'a | HTTPException nat "string option"

text \<open>
  How a request ends.  \<open>Handled\<close>: the handler ran to an outcome.
  \<open>RequestValidationError\<close>: the body does not satisfy the declared body model, and
  the handler is not entered (status 422 in \<open>tests/test_api_endpoints.py\<close>).
  \<open>ValidationError\<close>: the constructor \<open>IngestRequest(...)\<close> called inside a handler,
  outside any \<open>try\<close>, rejects its arguments, and the exception leaves the handler.
  \<open>RateLimitExceeded\<close>: the rate limiter refuses the request.
\<close>

datatype 'a reply =
    Handled "'a outcome"
  | RequestValidationError
  | ValidationError
  | RateLimitExceeded

section \<open>Collaborators and the state of the server\<close>

text \<open>
  One entry of the call log per call to an imported collaborator, with its arguments.
\<close>

datatype ('c, 'x) call =
    ParseQuery string "int option" bool "string set option" "string set option"
  | ExtractCloneConfig "'x IngestionQuery_scheme"
  | CloneRepo 'c
  | IngestQuery "'x IngestionQuery_scheme"

text \<open>
  The imported collaborators \<open>parse_query\<close>, \<open>IngestionQuery.extract_clone_config\<close>,
  \<open>clone_repo\<close> and \<open>ingest_query\<close> are parameters of the model.  Each may read and
  change the world \<open>'w\<close> (network, file system) and may raise.  \<open>'c\<close> is the type of
  clone configurations.
\<close>

record ('w, 'c, 'x) collaborators =
  parse_query :: "string \<Rightarrow> int option \<Rightarrow> bool \<Rightarrow> string set option \<Rightarrow> string set option
                    \<Rightarrow> 'w \<Rightarrow> (exn + 'x IngestionQuery_scheme) \<times> 'w"
  extract_clone_config :: "'x IngestionQuery_scheme \<Rightarrow> 'w \<Rightarrow> (exn + 'c) \<times> 'w"
  clone_repo :: "'c \<Rightarrow> 'w \<Rightarrow> (exn + unit) \<times> 'w"
  ingest_query :: "'x IngestionQuery_scheme \<Rightarrow> 'w \<Rightarrow> (exn + string \<times> string \<times> string) \<times> 'w"

text \<open>
  The state a request runs in: the world, the log of collaborator calls so far, and
  the rate limiter's store (for each client and route, the times in seconds of the
  requests it admitted).
\<close>

record ('w, 'c, 'x) server =
  world :: 'w
  calls :: "('c, 'x) call list"
  hits :: "string \<times> string \<Rightarrow> nat list"

text \<open>Calling a collaborator: run it on the world and log the call.\<close>

definition invoke :: "('c, 'x) call \<Rightarrow> ('w \<Rightarrow> 'r \<times> 'w) \<Rightarrow> ('w, 'c, 'x) server
                        \<Rightarrow> 'r \<times> ('w, 'c, 'x) server" where
  "invoke c f s =
     (case f (world s) of
        (r, w') \<Rightarrow> (r, s\<lparr>world := w', calls := calls s @ [c]\<rparr>))"

section \<open>The handlers\<close>

subsection \<open>\<open>ingest_repository\<close> (POST /ingest)\<close>

text \<open>
  The two \<open>except\<close> clauses of the handler.  They guard the whole \<open>try\<close> block:
  \<open>except ValueError as e: raise HTTPException(status_code=400, detail=str(e))\<close>, then
  \<open>except Exception as e: return IngestResponse(success=False, error=str(e))\<close>.
\<close>

fun on_exception :: "exn \<Rightarrow> IngestResponse outcome" where
  "on_exception (ValueError m) = HTTPException 400 (Some m)"
| "on_exception (OtherException m) =
     Returned \<lparr>success = False, data = None, error = Some m, metadata = None\<rparr>"

text \<open>\<open>if body.branch: query.branch = body.branch\<close>.\<close>

definition override_branch :: "string option \<Rightarrow> 'x IngestionQuery_scheme \<Rightarrow> 'x IngestionQuery_scheme" where
  "override_branch b query = (if truthy b then query\<lparr>query_branch := b\<rparr> else query)"

text \<open>
  \<open>if query.url: clone_config = query.extract_clone_config(); await clone_repo(clone_config)\<close>.
\<close>

definition clone_if_remote :: "('w, 'c, 'x) collaborators \<Rightarrow> 'x IngestionQuery_scheme
      \<Rightarrow> ('w, 'c, 'x) server \<Rightarrow> (exn + unit) \<times> ('w, 'c, 'x) server" where
  "clone_if_remote env query s =
     (if truthy (url query) then
        (case invoke (ExtractCloneConfig query) (extract_clone_config env query) s of
           (Inl e, s') \<Rightarrow> (Inl e, s')
         | (Inr clone_config, s') \<Rightarrow>
             invoke (CloneRepo clone_config) (clone_repo env clone_config) s')
      else (Inr (), s))"

text \<open>The dictionary \<open>metadata\<close> built after ingestion.\<close>

definition make_metadata :: "'x IngestionQuery_scheme \<Rightarrow> (string \<rightharpoonup> string)" where
  "make_metadata query =
     [''source_type'' \<mapsto> (if truthy (url query) then ''remote'' else ''local''),
      ''repository'' \<mapsto>
         (if truthy (user_name query)
          then py_format (user_name query) @ ''/'' @ py_format (repo_name query)
          else slug query),
      ''branch'' \<mapsto> py_or (query_branch query) ''default'',
      ''subpath'' \<mapsto> subpath query]"

text \<open>The response returned at the end of the \<open>try\<close> block.\<close>

definition success_response :: "'x IngestionQuery_scheme \<Rightarrow> string \<times> string \<times> string \<Rightarrow> IngestResponse" where
  "success_response query r =
     (case r of (summary, tree, content) \<Rightarrow>
        \<lparr>success = True,
         data = Some [''summary'' \<mapsto> summary, ''tree'' \<mapsto> tree, ''content'' \<mapsto> content],
         error = None,
         metadata = Some (make_metadata query)\<rparr>)"

text \<open>
  \<open>await parse_query(source=body.source, max_file_size=body.max_file_size,
  from_web=True, include_patterns=body.include_patterns,
  ignore_patterns=body.exclude_patterns)\<close>.
\<close>

definition resolve :: "('w, 'c, 'x) collaborators \<Rightarrow> IngestRequest
      \<Rightarrow> ('w, 'c, 'x) server \<Rightarrow> (exn + 'x IngestionQuery_scheme) \<times> ('w, 'c, 'x) server" where
  "resolve env body =
     invoke (ParseQuery (source body) (max_file_size body) True
               (include_patterns body) (exclude_patterns body))
            (parse_query env (source body) (max_file_size body) True
               (include_patterns body) (exclude_patterns body))"

text \<open>\<open>summary, tree, content = ingest_query(query)\<close>.\<close>

definition ingest :: "('w, 'c, 'x) collaborators \<Rightarrow> 'x IngestionQuery_scheme
      \<Rightarrow> ('w, 'c, 'x) server \<Rightarrow> (exn + string \<times> string \<times> string) \<times> ('w, 'c, 'x) server" where
  "ingest env query = invoke (IngestQuery query) (ingest_query env query)"

text \<open>
  The handler: resolve, override the branch, clone when the query has a url, ingest,
  assemble.  An exception at any of the steps goes to \<open>on_exception\<close>.
\<close>

definition ingest_repository :: "('w, 'c, 'x) collaborators \<Rightarrow> IngestRequest
      \<Rightarrow> ('w, 'c, 'x) server \<Rightarrow> IngestResponse outcome \<times> ('w, 'c, 'x) server" where
  "ingest_repository env body s =
     (case resolve env body s of
        (Inl e, s1) \<Rightarrow> (on_exception e, s1)
      | (Inr parsed, s1) \<Rightarrow>
          (let query = override_branch (branch body) parsed in
           case clone_if_remote env query s1 of
             (Inl e, s2) \<Rightarrow> (on_exception e, s2)
           | (Inr u, s2) \<Rightarrow>
               (case ingest env query s2 of
                  (Inl e, s3) \<Rightarrow> (on_exception e, s3)
                | (Inr r, s3) \<Rightarrow> (Returned (success_response query r), s3))))"

text \<open>
  The route \<open>POST /api/v1/ingest\<close>: the body is validated against \<open>IngestRequest\<close>
  before the handler is entered.
\<close>

definition post_ingest :: "('w, 'c, 'x) collaborators \<Rightarrow> IngestRequest
      \<Rightarrow> ('w, 'c, 'x) server \<Rightarrow> IngestResponse reply \<times> ('w, 'c, 'x) server" where
  "post_ingest env body s =
     (if valid_IngestRequest body
      then (case ingest_repository env body s of (out, s') \<Rightarrow> (Handled out, s'))
      else (RequestValidationError, s))"

subsection \<open>\<open>ingest_repository_get\<close> (GET /ingest)\<close>

text \<open>
  The parameters are \<open>source: str\<close>, \<open>max_file_size: Optional[int]\<close>, the two pattern
  strings and \<open>branch\<close>, all three \<open>Optional[str]\<close>.  The handler normalises the
  patterns, builds \<open>IngestRequest(...)\<close>, whose constructor validates, and calls
  \<open>ingest_repository\<close>.
\<close>

definition ingest_repository_get :: "('w, 'c, 'x) collaborators \<Rightarrow> string \<Rightarrow> int option
      \<Rightarrow> string option \<Rightarrow> string option \<Rightarrow> string option
      \<Rightarrow> ('w, 'c, 'x) server \<Rightarrow> IngestResponse reply \<times> ('w, 'c, 'x) server" where
  "ingest_repository_get env src mfs inc exc br s =
     (let include_set = normalize_patterns inc;
          exclude_set = normalize_patterns exc;
          body = \<lparr>source = src, max_file_size = mfs, include_patterns = include_set,
                  exclude_patterns = exclude_set, branch = br\<rparr>
      in if valid_IngestRequest body
         then (case ingest_repository env body s of (out, s') \<Rightarrow> (Handled out, s'))
         else (ValidationError, s))"

subsection \<open>\<open>get_repository_summary\<close> (GET /ingest/summary)\<close>

text \<open>
  \<open>IngestRequest(source=source, branch=branch)\<close>: the other fields take their
  defaults, which satisfy the constraints, so this constructor does not raise.
\<close>

definition summary_request :: "string \<Rightarrow> string option \<Rightarrow> IngestRequest" where
  "summary_request src br =
     \<lparr>source = src, max_file_size = Some (10 * 1024 * 1024), include_patterns = None,
      exclude_patterns = None, branch = br\<rparr>"

text \<open>\<open>d.get(k, "")\<close>.\<close>

definition get_or_empty :: "(string \<rightharpoonup> string) \<Rightarrow> string \<Rightarrow> string" where
  "get_or_empty d k = (case d k of None \<Rightarrow> [] | Some v \<Rightarrow> v)"

text \<open>
  The messages of the exceptions Python raises when \<open>None\<close> is subscripted, when a key
  is missing from a dictionary, and when \<open>get\<close> is called on \<open>None\<close>.
\<close>

definition not_subscriptable :: string where
  "not_subscriptable = CHR 0x27 # ''NoneType'' @ CHR 0x27 # '' object is not subscriptable''"

definition key_error :: "string \<Rightarrow> string" where
  "key_error k = CHR 0x27 # k @ [CHR 0x27]"

definition no_attribute_get :: string where
  "no_attribute_get =
     CHR 0x27 # ''NoneType'' @ CHR 0x27 # '' object has no attribute '' @ CHR 0x27 # ''get'' @ [CHR 0x27]"

text \<open>
  The body of the \<open>try\<close> after the call.  A failed response raises
  \<open>HTTPException(400, detail=response.error)\<close>.  Any other exception is turned by
  \<open>except Exception\<close> into \<open>HTTPException(500, detail=str(e))\<close>.
\<close>

definition reduce_to_summary :: "string \<Rightarrow> IngestResponse \<Rightarrow> (string \<rightharpoonup> string) outcome" where
  "reduce_to_summary src response =
     (if \<not> success response then HTTPException 400 (error response)
      else (case data response of
              None \<Rightarrow> HTTPException 500 (Some not_subscriptable)
            | Some d \<Rightarrow>
                (case d ''summary'' of
                   None \<Rightarrow> HTTPException 500 (Some (key_error ''summary''))
                 | Some summary \<Rightarrow>
                     (case metadata response of
                        None \<Rightarrow> HTTPException 500 (Some no_attribute_get)
                      | Some m \<Rightarrow>
                          Returned [''source'' \<mapsto> src,
                                    ''summary'' \<mapsto> summary,
                                    ''repository'' \<mapsto> get_or_empty m ''repository'',
                                    ''branch'' \<mapsto> get_or_empty m ''branch'']))))"

text \<open>
  The handler.  An \<open>HTTPException\<close> raised by \<open>ingest_repository\<close> passes through
  \<open>except HTTPException: raise\<close>.
\<close>

definition get_repository_summary :: "('w, 'c, 'x) collaborators \<Rightarrow> string \<Rightarrow> string option
      \<Rightarrow> ('w, 'c, 'x) server \<Rightarrow> (string \<rightharpoonup> string) outcome \<times> ('w, 'c, 'x) server" where
  "get_repository_summary env src br s =
     (case ingest_repository env (summary_request src br) s of
        (HTTPException code detail, s') \<Rightarrow> (HTTPException code detail, s')
      | (Returned response, s') \<Rightarrow> (reduce_to_summary src response, s'))"

section \<open>Rate limiting\<close>

text \<open>
  Modelled from the spec: the object \<open>limiter\<close> of \<open>server.server_utils\<close>, which the
  decorators \<open>@limiter.limit("5/minute")\<close> and \<open>@limiter.limit("10/minute")\<close> of the
  handlers use and which is defined outside \<open>server/routers/api.py\<close>.  The spec describes "a counter
  per (client identity, route) pair", "reset on a rolling time window", where
  "exceeding the threshold must reject the request before any acquisition or ingestion
  work begins".  The store keeps, for each client and route, the times (in seconds) of
  the requests admitted; the window is the last 60 seconds; a request is admitted while
  fewer than the cap were admitted in the window.
\<close>

definition recent :: "nat \<Rightarrow> nat list \<Rightarrow> nat list" where
  "recent now ts = filter (\<lambda>t. now < t + 60) ts"

definition limited :: "nat \<Rightarrow> string \<Rightarrow> string \<Rightarrow> nat
      \<Rightarrow> (('w, 'c, 'x) server \<Rightarrow> 'a reply \<times> ('w, 'c, 'x) server)
      \<Rightarrow> ('w, 'c, 'x) server \<Rightarrow> 'a reply \<times> ('w, 'c, 'x) server" where
  "limited cap client route now handler s =
     (let seen = recent now (hits s (client, route)) in
      if length seen < cap
      then handler (s\<lparr>hits := (hits s)((client, route) := now # seen)\<rparr>)
      else (RateLimitExceeded, s\<lparr>hits := (hits s)((client, route) := seen)\<rparr>))"

text \<open>A handler's outcome as the reply to the request.\<close>

definition handled :: "'a outcome \<times> 's \<Rightarrow> 'a reply \<times> 's" where
  "handled r = (case r of (out, s') \<Rightarrow> (Handled out, s'))"

text \<open>
  The three routes as decorated: each handler under its own cap.  The body of a POST
  is validated before the decorated handler is called; the GET handlers validate
  inside.
\<close>

definition route_ingest_post :: "('w, 'c, 'x) collaborators \<Rightarrow> string \<Rightarrow> nat \<Rightarrow> IngestRequest
      \<Rightarrow> ('w, 'c, 'x) server \<Rightarrow> IngestResponse reply \<times> ('w, 'c, 'x) server" where
  "route_ingest_post env client now body s =
     (if valid_IngestRequest body
      then limited 5 client ''ingest_repository'' now
             (\<lambda>s'. handled (ingest_repository env body s')) s
      else (RequestValidationError, s))"

definition route_ingest_get :: "('w, 'c, 'x) collaborators \<Rightarrow> string \<Rightarrow> nat \<Rightarrow> string
      \<Rightarrow> int option \<Rightarrow> string option \<Rightarrow> string option \<Rightarrow> string option
      \<Rightarrow> ('w, 'c, 'x) server \<Rightarrow> IngestResponse reply \<times> ('w, 'c, 'x) server" where
  "route_ingest_get env client now src mfs inc exc br s =
     limited 5 client ''ingest_repository_get'' now
       (ingest_repository_get env src mfs inc exc br) s"

definition route_summary :: "('w, 'c, 'x) collaborators \<Rightarrow> string \<Rightarrow> nat \<Rightarrow> string
      \<Rightarrow> string option
      \<Rightarrow> ('w, 'c, 'x) server \<Rightarrow> (string \<rightharpoonup> string) reply \<times> ('w, 'c, 'x) server" where
  "route_summary env client now src br s =
     limited 10 client ''get_repository_summary'' now
       (\<lambda>s'. handled (get_repository_summary env src br s')) s"

text \<open>One client sending the same request at each of the times \<open>ts\<close>, in order.\<close>

fun serve :: "(nat \<Rightarrow> 's \<Rightarrow> 'r \<times> 's) \<Rightarrow> nat list \<Rightarrow> 's \<Rightarrow> 'r list \<times> 's" where
  "serve route [] s = ([], s)"
| "serve route (t # ts) s =
     (case route t s of
        (r, s1) \<Rightarrow> (case serve route ts s1 of (rs, s2) \<Rightarrow> (r # rs, s2)))"

section \<open>Test doubles\<close>

text \<open>
  The collaborators as \<open>tests/test_api_endpoints.py\<close> patches them: each returns or
  raises a fixed result.  The world counts the calls made; the clone configuration is
  the url.  The queries and requests are those of the tests; \<open>started\<close> is a server
  that has not served anything yet.
\<close>

definition mock_env :: "exn + IngestionQuery \<Rightarrow> exn + unit \<Rightarrow> exn + string \<times> string \<times> string
      \<Rightarrow> (nat, string, unit) collaborators" where
  "mock_env parsed cloned ingested =
     \<lparr>parse_query = (\<lambda>src mfs web inc exc w. (parsed, Suc w)),
      extract_clone_config = (\<lambda>query w. (Inr (py_format (url query)), Suc w)),
      clone_repo = (\<lambda>cfg w. (cloned, Suc w)),
      ingest_query = (\<lambda>query w. (ingested, Suc w))\<rparr>"

definition remote_query :: IngestionQuery where
  "remote_query =
     \<lparr>url = Some ''https://github.com/test/repo'', user_name = Some ''test'',
      repo_name = Some ''repo'', slug = ''test-repo'', query_branch = Some ''main'',
      subpath = ''/''\<rparr>"

definition local_query :: IngestionQuery where
  "local_query =
     \<lparr>url = None, user_name = None, repo_name = None, slug = ''local-project'',
      query_branch = None, subpath = ''/''\<rparr>"

definition ingested_ok :: "exn + string \<times> string \<times> string" where
  "ingested_ok = Inr (''Files analyzed: 5'', ''src/'', ''FILE: src/main.py'')"

definition remote_request :: IngestRequest where
  "remote_request =
     \<lparr>source = ''https://github.com/test/repo'', max_file_size = Some 1048576,
      include_patterns = Some {''*.py''}, exclude_patterns = None, branch = Some ''main''\<rparr>"

definition local_request :: IngestRequest where
  "local_request =
     \<lparr>source = ''/path/to/local/project'', max_file_size = Some 1048576,
      include_patterns = None, exclude_patterns = None, branch = None\<rparr>"

definition invalid_url_request :: IngestRequest where
  "invalid_url_request =
     \<lparr>source = ''invalid-url'', max_file_size = Some 1048576, include_patterns = None,
      exclude_patterns = None, branch = None\<rparr>"

definition started :: "(nat, string, unit) server" where
  "started = \<lparr>world = 0, calls = [], hits = (\<lambda>k. [])\<rparr>"

text \<open>
  Further inputs: a request with the empty source and a size limit within bounds, and
  a server on which a client has had five requests admitted on every route, at the
  seconds 10 to 50.
\<close>

definition empty_source_request :: IngestRequest where
  "empty_source_request =
     \<lparr>source = [], max_file_size = Some 1048576, include_patterns = None,
      exclude_patterns = None, branch = None\<rparr>"

definition busy :: "(nat, string, unit) server" where
  "busy = \<lparr>world = 0, calls = [], hits = (\<lambda>k. [50, 40, 30, 20, 10])\<rparr>"

section \<open>Properties of the pattern normalisation\<close>

subsection \<open>Trimming\<close>

lemma strip_split:
  "dropWhile isspace s = strip s @ rev (takeWhile isspace (rev (dropWhile isspace s)))"
proof -
  let ?a = "dropWhile isspace s"
  have "strip s @ rev (takeWhile isspace (rev ?a))
      = rev (takeWhile isspace (rev ?a) @ dropWhile isspace (rev ?a))"
    by (simp only: strip_def rev_append)
  also have "\<dots> = ?a"
    by (simp only: takeWhile_dropWhile_id rev_rev_ident)
  finally show ?thesis by simp
qed

lemma strip_decomp:
  "s = takeWhile isspace s @ strip s @ rev (takeWhile isspace (rev (dropWhile isspace s)))"
proof -
  have "s = takeWhile isspace s @ dropWhile isspace s" by simp
  then show ?thesis using strip_split [of s] by simp
qed

lemma strip_ends:
  assumes "strip s \<noteq> []"
  shows "\<not> isspace (hd (strip s))" and "\<not> isspace (last (strip s))"
proof -
  let ?a = "dropWhile isspace s"
  have a: "?a \<noteq> []" using assms strip_split [of s] by (metis append_is_Nil_conv)
  have "hd ?a = hd (strip s)"
    using assms strip_split [of s] by (metis hd_append2)
  then show "\<not> isspace (hd (strip s))"
    using a hd_dropWhile [of isspace s] by simp
  have d: "dropWhile isspace (rev ?a) \<noteq> []" using assms by (simp add: strip_def)
  have "last (strip s) = hd (dropWhile isspace (rev ?a))"
    using d by (simp add: strip_def last_rev)
  then show "\<not> isspace (last (strip s))"
    using d hd_dropWhile [of isspace "rev ?a"] by simp
qed

lemma strip_fixed:
  assumes "s = [] \<or> (\<not> isspace (hd s) \<and> \<not> isspace (last s))"
  shows "strip s = s"
proof (cases "s = []")
  case True
  then show ?thesis by (simp add: strip_def)
next
  case False
  with assms have h: "\<not> isspace (hd s)" and l: "\<not> isspace (last s)" by auto
  have "dropWhile isspace s = s" using False h by (simp add: dropWhile_eq_self_iff)
  moreover have "dropWhile isspace (rev s) = rev s"
    using False l by (simp add: dropWhile_eq_self_iff hd_rev)
  ultimately show ?thesis by (simp add: strip_def)
qed

lemma strip_idem: "strip (strip s) = strip s"
  using strip_ends [of s] strip_fixed [of "strip s"] by blast


subsection \<open>Splitting and joining\<close>

lemma split_nonempty: "split_comma s \<noteq> []"
  by (induction s) (auto split: list.splits)

lemma split_no_comma: "t \<in> set (split_comma s) \<Longrightarrow> CHR '','' \<notin> set t"
  by (induction s arbitrary: t) (auto split: list.splits if_splits)

lemma join_cons_char: "join_comma ((c # t) # ts) = c # join_comma (t # ts)"
  by (cases ts) auto

lemma join_nil_cons: "ts \<noteq> [] \<Longrightarrow> join_comma ([] # ts) = CHR '','' # join_comma ts"
  by (cases ts) auto

lemma join_split: "join_comma (split_comma s) = s"
  by (induction s) (auto simp: join_cons_char join_nil_cons split_nonempty split: list.splits)

lemma split_plain: "CHR '','' \<notin> set x \<Longrightarrow> split_comma x = [x]"
  by (induction x) auto

lemma split_append_comma:
  "CHR '','' \<notin> set x \<Longrightarrow> split_comma (x @ CHR '','' # r) = x # split_comma r"
  by (induction x) (auto split: list.splits)

lemma split_join:
  "xs \<noteq> [] \<Longrightarrow> \<forall>x\<in>set xs. CHR '','' \<notin> set x \<Longrightarrow> split_comma (join_comma xs) = xs"
  by (induction xs rule: join_comma.induct) (auto simp: split_plain split_append_comma)

subsection \<open>The set of patterns\<close>

lemma strip_subset: "set (strip s) \<subseteq> set s"
  using strip_decomp [of s] by (metis Un_upper1 Un_upper2 set_append subset_trans)

lemma parse_patterns_iff:
  "p \<in> parse_patterns s \<longleftrightarrow> p \<noteq> [] \<and> (\<exists>t\<in>set (split_comma s). p = strip t)"
  by (auto simp: parse_patterns_def pattern_tokens_def)

lemma canonical_token:
  assumes "p \<in> parse_patterns s"
  shows "p \<noteq> []" and "strip p = p" and "CHR '','' \<notin> set p"
proof -
  from assms obtain t where t: "t \<in> set (split_comma s)" and p: "p = strip t" and ne: "p \<noteq> []"
    by (auto simp: parse_patterns_iff)
  show "p \<noteq> []" by (rule ne)
  show "strip p = p" by (simp add: p strip_idem)
  show "CHR '','' \<notin> set p"
    using split_no_comma [OF t] strip_subset [of t] p by blast
qed

lemma tokens_of_canonical:
  assumes "\<forall>x\<in>set xs. x \<noteq> [] \<and> strip x = x \<and> CHR '','' \<notin> set x"
  shows "pattern_tokens (join_comma xs) = xs"
proof (cases "xs = []")
  case True
  then show ?thesis by (simp add: pattern_tokens_def strip_def)
next
  case False
  with assms have "split_comma (join_comma xs) = xs" by (simp add: split_join)
  moreover have "map strip xs = xs" using assms by (simp add: map_idI)
  moreover have "filter (\<lambda>p. p \<noteq> []) xs = xs" using assms by simp
  ultimately show ?thesis by (simp add: pattern_tokens_def)
qed

lemma parse_join_canonical:
  assumes "set xs = parse_patterns s"
  shows "parse_patterns (join_comma xs) = parse_patterns s"
proof -
  have "\<forall>x\<in>set xs. x \<noteq> [] \<and> strip x = x \<and> CHR '','' \<notin> set x"
    using assms canonical_token by blast
  then have "pattern_tokens (join_comma xs) = xs" by (rule tokens_of_canonical)
  then show ?thesis using assms by (simp add: parse_patterns_def)
qed

lemma tokens_example_include: "pattern_tokens ''*.py, *.md, *.txt'' = [''*.py'', ''*.md'', ''*.txt'']"
  by (simp add: pattern_tokens_def strip_def isspace_def)

lemma tokens_example_exclude: "pattern_tokens ''*.log,  *.tmp '' = [''*.log'', ''*.tmp'']"
  by (simp add: pattern_tokens_def strip_def isspace_def)


lemma strip_trims:
  "\<exists>l r. t = l @ strip t @ r \<and> (\<forall>c\<in>set l. isspace c) \<and> (\<forall>c\<in>set r. isspace c)"
proof -
  let ?l = "takeWhile isspace t"
  let ?r = "rev (takeWhile isspace (rev (dropWhile isspace t)))"
  have "t = ?l @ strip t @ ?r" by (rule strip_decomp)
  moreover have "\<forall>c\<in>set ?l. isspace c" by (auto dest: set_takeWhileD)
  moreover have "\<forall>c\<in>set ?r. isspace c" by (auto dest: set_takeWhileD)
  ultimately show ?thesis by blast
qed

section \<open>Properties of the handlers\<close>

subsection \<open>Collaborator calls\<close>

lemmas mock_simps = mock_env_def remote_query_def local_query_def ingested_ok_def
  remote_request_def local_request_def started_def

lemmas handler_simps = ingest_repository_def resolve_def ingest_def clone_if_remote_def
  invoke_def override_branch_def success_response_def Let_def

lemma invoke_split:
  "invoke c f s = (fst (f (world s)), s\<lparr>world := snd (f (world s)), calls := calls s @ [c]\<rparr>)"
  by (simp add: invoke_def split: prod.splits)

lemma resolve_split:
  "resolve env body s =
     (fst (parse_query env (source body) (max_file_size body) True
             (include_patterns body) (exclude_patterns body) (world s)),
      s\<lparr>world := snd (parse_query env (source body) (max_file_size body) True
                       (include_patterns body) (exclude_patterns body) (world s)),
        calls := calls s @ [ParseQuery (source body) (max_file_size body) True
                             (include_patterns body) (exclude_patterns body)]\<rparr>)"
  by (simp add: resolve_def invoke_split)

lemma ingest_split:
  "ingest env query s =
     (fst (ingest_query env query (world s)),
      s\<lparr>world := snd (ingest_query env query (world s)),
        calls := calls s @ [IngestQuery query]\<rparr>)"
  by (simp add: ingest_def invoke_split)

lemma override_branch_url: "url (override_branch b q) = url q"
  by (simp add: override_branch_def)

lemma override_branch_keeps:
  "user_name (override_branch b q) = user_name q"
  "repo_name (override_branch b q) = repo_name q"
  "slug (override_branch b q) = slug q"
  "subpath (override_branch b q) = subpath q"
  by (simp_all add: override_branch_def)

lemma clone_if_remote_local:
  "\<not> truthy (url query) \<Longrightarrow> clone_if_remote env query s = (Inr (), s)"
  by (simp add: clone_if_remote_def)

lemma clone_if_remote_hits: "clone_if_remote env query s = (r, s') \<Longrightarrow> hits s' = hits s"
  by (auto simp: clone_if_remote_def invoke_split split: if_splits sum.splits prod.splits)

lemma clone_if_remote_calls:
  "\<exists>cs. calls (snd (clone_if_remote env query s)) = calls s @ cs"
  by (auto simp: clone_if_remote_def invoke_split split: sum.splits prod.splits)

lemma clone_if_remote_raises:
  "(fst (clone_if_remote env query s) = Inl e) =
     (truthy (url query)
      \<and> (fst (extract_clone_config env query (world s)) = Inl e
         \<or> (\<exists>cfg w. extract_clone_config env query (world s) = (Inr cfg, w)
               \<and> fst (clone_repo env cfg w) = Inl e)))"
proof (cases "truthy (url query)")
  case False
  then show ?thesis by (simp add: clone_if_remote_def)
next
  case True
  obtain x w where x: "extract_clone_config env query (world s) = (x, w)"
    by (cases "extract_clone_config env query (world s)")
  show ?thesis
  proof (cases x)
    case (Inl e')
    with True x show ?thesis by (simp add: clone_if_remote_def invoke_split)
  next
    case (Inr cfg)
    with True x show ?thesis by (simp add: clone_if_remote_def invoke_split)
  qed
qed

subsection \<open>The paths through \<open>ingest_repository\<close>\<close>

lemma ingest_repository_cases [case_names resolve_failed acquire_failed ingest_failed succeeded]:
  fixes env :: "('w, 'c, 'x) collaborators"
  obtains
    (resolve_failed) e s1 where
      "resolve env body s = (Inl e, s1)"
      "ingest_repository env body s = (on_exception e, s1)"
  | (acquire_failed) parsed s1 e s2 where
      "resolve env body s = (Inr parsed, s1)"
      "clone_if_remote env (override_branch (branch body) parsed) s1 = (Inl e, s2)"
      "ingest_repository env body s = (on_exception e, s2)"
  | (ingest_failed) parsed s1 s2 e s3 where
      "resolve env body s = (Inr parsed, s1)"
      "clone_if_remote env (override_branch (branch body) parsed) s1 = (Inr (), s2)"
      "ingest env (override_branch (branch body) parsed) s2 = (Inl e, s3)"
      "ingest_repository env body s = (on_exception e, s3)"
  | (succeeded) parsed s1 s2 r s3 where
      "resolve env body s = (Inr parsed, s1)"
      "clone_if_remote env (override_branch (branch body) parsed) s1 = (Inr (), s2)"
      "ingest env (override_branch (branch body) parsed) s2 = (Inr r, s3)"
      "ingest_repository env body s = (Returned (success_response (override_branch (branch body) parsed) r), s3)"
proof -
  obtain pr s1 where p: "resolve env body s = (pr, s1)" by (cases "resolve env body s")
  show thesis
  proof (cases pr)
    case (Inl e)
    with p have "ingest_repository env body s = (on_exception e, s1)"
      by (simp add: ingest_repository_def)
    with p Inl show thesis using resolve_failed by blast
  next
    case (Inr parsed)
    let ?q = "override_branch (branch body) parsed"
    obtain cr s2 where c: "clone_if_remote env ?q s1 = (cr, s2)" by (cases "clone_if_remote env ?q s1")
    show thesis
    proof (cases cr)
      case (Inl e)
      with p Inr c have "ingest_repository env body s = (on_exception e, s2)"
        by (simp add: ingest_repository_def)
      with p Inr c Inl show thesis using acquire_failed by blast
    next
      case u: (Inr u)
      obtain ir s3 where i: "ingest env ?q s2 = (ir, s3)" by (cases "ingest env ?q s2")
      show thesis
      proof (cases ir)
        case (Inl e)
        with p Inr c u i have "ingest_repository env body s = (on_exception e, s3)"
          by (simp add: ingest_repository_def)
        with p Inr c u i Inl show thesis using ingest_failed by simp
      next
        case r: (Inr r)
        with p Inr c u i have "ingest_repository env body s = (Returned (success_response ?q r), s3)"
          by (simp add: ingest_repository_def)
        with p Inr c u i r show thesis using succeeded by simp
      qed
    qed
  qed
qed

lemma ingest_repository_hits: "hits (snd (ingest_repository env body s)) = hits s"
proof (cases env body s rule: ingest_repository_cases)
  case (resolve_failed e s1)
  then show ?thesis by (auto simp: resolve_split)
next
  case (acquire_failed parsed s1 e s2)
  then show ?thesis using clone_if_remote_hits [of env _ s1 _ s2] by (auto simp: resolve_split)
next
  case (ingest_failed parsed s1 s2 e s3)
  then show ?thesis using clone_if_remote_hits [of env _ s1 _ s2]
    by (auto simp: resolve_split ingest_split)
next
  case (succeeded parsed s1 s2 r s3)
  then show ?thesis using clone_if_remote_hits [of env _ s1 _ s2]
    by (auto simp: resolve_split ingest_split)
qed

lemma ingest_repository_first_call:
  "\<exists>rest. calls (snd (ingest_repository env body s)) =
     calls s @ ParseQuery (source body) (max_file_size body) True
                 (include_patterns body) (exclude_patterns body) # rest"
proof (cases env body s rule: ingest_repository_cases)
  case (resolve_failed e s1)
  then show ?thesis by (auto simp: resolve_split)
next
  case (acquire_failed parsed s1 e s2)
  then show ?thesis
    using clone_if_remote_calls [of env "override_branch (branch body) parsed" s1]
    by (auto simp: resolve_split)
next
  case (ingest_failed parsed s1 s2 e s3)
  then show ?thesis
    using clone_if_remote_calls [of env "override_branch (branch body) parsed" s1]
    by (auto simp: resolve_split ingest_split)
next
  case (succeeded parsed s1 s2 r s3)
  then show ?thesis
    using clone_if_remote_calls [of env "override_branch (branch body) parsed" s1]
    by (auto simp: resolve_split ingest_split)
qed

lemma resolve_parsed:
  assumes "fst (parse_query env (source body) (max_file_size body) True
                  (include_patterns body) (exclude_patterns body) (world s)) = Inr parsed"
  shows "\<exists>s1. resolve env body s = (Inr parsed, s1)"
  using assms by (simp add: resolve_split)

subsection \<open>Shape of the responses\<close>

lemma on_exception_Returned:
  "on_exception e = Returned r \<Longrightarrow>
     \<not> success r \<and> data r = None \<and> metadata r = None \<and> (\<exists>m. e = OtherException m \<and> error r = Some m)"
  by (cases e) auto

lemma on_exception_HTTP:
  "on_exception e = HTTPException code detail \<Longrightarrow>
     code = 400 \<and> (\<exists>m. e = ValueError m \<and> detail = Some m)"
  by (cases e) auto

lemma success_response_fields:
  "success (success_response q r) \<and> error (success_response q r) = None
   \<and> data (success_response q r) = Some [''summary'' \<mapsto> fst r, ''tree'' \<mapsto> fst (snd r), ''content'' \<mapsto> snd (snd r)]
   \<and> metadata (success_response q r) = Some (make_metadata q)"
  by (simp add: success_response_def split: prod.splits)

lemma returned_shape:
  assumes "fst (ingest_repository env body s) = Returned r"
  shows "(success r \<longrightarrow>
            (\<exists>summary tree content.
               data r = Some [''summary'' \<mapsto> summary, ''tree'' \<mapsto> tree, ''content'' \<mapsto> content])
            \<and> error r = None \<and> metadata r \<noteq> None)
       \<and> (\<not> success r \<longrightarrow> data r = None \<and> error r \<noteq> None \<and> metadata r = None)"
proof (cases env body s rule: ingest_repository_cases)
  case (resolve_failed e s1)
  with assms show ?thesis using on_exception_Returned [of e r] by auto
next
  case (acquire_failed parsed s1 e s2)
  with assms show ?thesis using on_exception_Returned [of e r] by auto
next
  case (ingest_failed parsed s1 s2 e s3)
  with assms show ?thesis using on_exception_Returned [of e r] by auto
next
  case (succeeded parsed s1 s2 r' s3)
  with assms have r: "r = success_response (override_branch (branch body) parsed) r'" by simp
  have "success r" "error r = None" "metadata r \<noteq> None"
       "data r = Some [''summary'' \<mapsto> fst r', ''tree'' \<mapsto> fst (snd r'), ''content'' \<mapsto> snd (snd r')]"
    by (simp_all add: r success_response_fields)
  then show ?thesis by blast
qed

lemma returned_success:
  assumes "fst (parse_query env (source body) (max_file_size body) True
                  (include_patterns body) (exclude_patterns body) (world s)) = Inr parsed"
      and "fst (ingest_repository env body s) = Returned r"
      and "success r"
  shows "\<exists>res s2. r = success_response (override_branch (branch body) parsed) res
           \<and> snd (ingest_repository env body s) = snd (ingest env (override_branch (branch body) parsed) s2)"
proof -
  from resolve_parsed [OF assms(1)] obtain t where t: "resolve env body s = (Inr parsed, t)" ..
  show ?thesis
  proof (cases env body s rule: ingest_repository_cases)
    case (resolve_failed e s1)
    with t show ?thesis by simp
  next
    case (acquire_failed parsed' s1 e s2)
    with assms(2,3) show ?thesis using on_exception_Returned [of e r] by auto
  next
    case (ingest_failed parsed' s1 s2 e s3)
    with assms(2,3) show ?thesis using on_exception_Returned [of e r] by auto
  next
    case (succeeded parsed' s1 s2 res s3)
    with t have p: "parsed' = parsed" by simp
    have "r = success_response (override_branch (branch body) parsed) res"
      using succeeded(4) assms(2) p by simp
    moreover have "snd (ingest_repository env body s)
        = snd (ingest env (override_branch (branch body) parsed) s2)"
      using succeeded(3,4) p by simp
    ultimately show ?thesis by blast
  qed
qed

lemma success_is_success_response:
  fixes env :: "('w, 'c, 'x) collaborators"
  assumes "fst (ingest_repository env body s) = Returned r" and "success r"
  shows "\<exists>(q :: 'x IngestionQuery_scheme) res. r = success_response q res"
proof (cases env body s rule: ingest_repository_cases)
  case (resolve_failed e s1)
  with assms show ?thesis using on_exception_Returned [of e r] by auto
next
  case (acquire_failed parsed s1 e s2)
  with assms show ?thesis using on_exception_Returned [of e r] by auto
next
  case (ingest_failed parsed s1 s2 e s3)
  with assms show ?thesis using on_exception_Returned [of e r] by auto
next
  case (succeeded parsed s1 s2 res s3)
  with assms have "r = success_response (override_branch (branch body) parsed) res" by simp
  then show ?thesis by blast
qed

lemma make_metadata_dom:
  "dom (make_metadata q) = {''source_type'', ''repository'', ''branch'', ''subpath''}"
  by (auto simp: make_metadata_def)

lemma make_metadata_lookup:
  "make_metadata q ''source_type'' = Some (if truthy (url q) then ''remote'' else ''local'')"
  "make_metadata q ''repository'' =
     Some (if truthy (user_name q) then py_format (user_name q) @ ''/'' @ py_format (repo_name q)
           else slug q)"
  "make_metadata q ''branch'' = Some (py_or (query_branch q) ''default'')"
  "make_metadata q ''subpath'' = Some (subpath q)"
  by (simp_all add: make_metadata_def)

lemma failure_source:
  fixes env :: "('w, 'c, 'x) collaborators"
  assumes "\<not> (\<exists>r. fst (ingest_repository env body s) = Returned r \<and> success r)"
  shows "\<exists>e. fst (ingest_repository env body s) = on_exception e
          \<and> ((\<exists>t1. resolve env body s = (Inl e, t1))
             \<or> (\<exists>q t1 t2. resolve env body s = (Inr q, t1)
                   \<and> clone_if_remote env (override_branch (branch body) q) t1 = (Inl e, t2))
             \<or> (\<exists>q t1 t2 t3. resolve env body s = (Inr q, t1)
                   \<and> clone_if_remote env (override_branch (branch body) q) t1 = (Inr (), t2)
                   \<and> ingest env (override_branch (branch body) q) t2 = (Inl e, t3)))"
proof (cases env body s rule: ingest_repository_cases)
  case (resolve_failed e t1)
  have "\<exists>t1. resolve env body s = (Inl e, t1)" using resolve_failed(1) by (rule exI)
  moreover have "fst (ingest_repository env body s) = on_exception e"
    using resolve_failed(2) by simp
  ultimately show ?thesis by (intro exI [of _ e] conjI disjI1)
next
  case (acquire_failed q t1 e t2)
  have "\<exists>q t1 t2. resolve env body s = (Inr q, t1)
          \<and> clone_if_remote env (override_branch (branch body) q) t1 = (Inl e, t2)"
    using acquire_failed(1,2) by (intro exI conjI)
  moreover have "fst (ingest_repository env body s) = on_exception e"
    using acquire_failed(3) by simp
  ultimately show ?thesis by (intro exI [of _ e] conjI disjI2 disjI1)
next
  case (ingest_failed q t1 t2 e t3)
  have "\<exists>q t1 t2 t3. resolve env body s = (Inr q, t1)
          \<and> clone_if_remote env (override_branch (branch body) q) t1 = (Inr (), t2)
          \<and> ingest env (override_branch (branch body) q) t2 = (Inl e, t3)"
    using ingest_failed(1,2,3) by (intro exI conjI)
  moreover have "fst (ingest_repository env body s) = on_exception e"
    using ingest_failed(4) by simp
  ultimately show ?thesis by (intro exI [of _ e] conjI disjI2)
next
  case (succeeded q t1 t2 res t3)
  then have "fst (ingest_repository env body s) = Returned (success_response (override_branch (branch body) q) res)"
    by simp
  moreover have "success (success_response (override_branch (branch body) q) res)"
    by (simp add: success_response_fields)
  ultimately show ?thesis using assms by blast
qed

subsection \<open>The adapters\<close>

lemma post_ingest_handled:
  "fst (post_ingest env body s) = Handled out \<Longrightarrow> fst (ingest_repository env body s) = out"
  by (auto simp: post_ingest_def split: if_splits prod.splits)

lemma get_handled:
  "fst (ingest_repository_get env src mfs inc exc br s) = Handled out \<Longrightarrow>
   fst (ingest_repository env
          \<lparr>source = src, max_file_size = mfs, include_patterns = normalize_patterns inc,
           exclude_patterns = normalize_patterns exc, branch = br\<rparr> s) = out"
  by (auto simp: ingest_repository_get_def Let_def split: if_splits prod.splits)

lemma ingest_repository_get_split:
  "ingest_repository_get env src mfs inc exc br s =
     (if valid_IngestRequest
           \<lparr>source = src, max_file_size = mfs, include_patterns = normalize_patterns inc,
            exclude_patterns = normalize_patterns exc, branch = br\<rparr>
      then (Handled (fst (ingest_repository env
                      \<lparr>source = src, max_file_size = mfs, include_patterns = normalize_patterns inc,
                       exclude_patterns = normalize_patterns exc, branch = br\<rparr> s)),
            snd (ingest_repository env
                      \<lparr>source = src, max_file_size = mfs, include_patterns = normalize_patterns inc,
                       exclude_patterns = normalize_patterns exc, branch = br\<rparr> s))
      else (ValidationError, s))"
  by (simp add: ingest_repository_get_def Let_def split: prod.splits)

lemma ingest_repository_get_hits:
  "hits (snd (ingest_repository_get env src mfs inc exc br s)) = hits s"
  by (simp add: ingest_repository_get_split ingest_repository_hits)

lemma ingest_repository_get_not_limited:
  "fst (ingest_repository_get env src mfs inc exc br s) \<noteq> RateLimitExceeded"
  by (simp add: ingest_repository_get_split)

lemma size_out_of_bounds_rejected:
  assumes "max_file_size body = Some n" and "n < 1024 \<or> 104857600 < n"
  shows "post_ingest env body s = (RequestValidationError, s)"
    and "ingest_repository_get env (source body) (max_file_size body) inc exc br s = (ValidationError, s)"
  using assms by (auto simp: post_ingest_def ingest_repository_get_def valid_IngestRequest_def Let_def)

lemma summary_request_valid: "valid_IngestRequest (summary_request src br)"
  by (simp add: valid_IngestRequest_def summary_request_def)

lemma summary_split:
  "get_repository_summary env src br s =
     ((case fst (ingest_repository env (summary_request src br) s) of
         HTTPException code detail \<Rightarrow> HTTPException code detail
       | Returned response \<Rightarrow> reduce_to_summary src response),
      snd (ingest_repository env (summary_request src br) s))"
  by (simp add: get_repository_summary_def split: prod.splits outcome.splits)

lemma reduce_success_response:
  "reduce_to_summary src (success_response q res) =
     Returned [''source'' \<mapsto> src,
               ''summary'' \<mapsto> fst res,
               ''repository'' \<mapsto> the (make_metadata q ''repository''),
               ''branch'' \<mapsto> the (make_metadata q ''branch'')]"
  by (simp add: reduce_to_summary_def success_response_def get_or_empty_def make_metadata_lookup
        split: prod.splits)

lemma get_repository_summary_hits:
  "hits (snd (get_repository_summary env src br s)) = hits s"
  by (simp add: summary_split ingest_repository_hits)

subsection \<open>The limiter\<close>

lemma limited_over:
  assumes "cap \<le> length (recent now (hits s (client, route)))"
  shows "limited cap client route now handler s
       = (RateLimitExceeded, s\<lparr>hits := (hits s)((client, route) := recent now (hits s (client, route)))\<rparr>)"
  using assms by (simp add: limited_def Let_def)

lemma limited_under:
  assumes "length (recent now (hits s (client, route))) < cap"
  shows "limited cap client route now handler s
       = handler (s\<lparr>hits := (hits s)((client, route) := now # recent now (hits s (client, route)))\<rparr>)"
  using assms by (simp add: limited_def Let_def)

lemma handled_split: "handled r = (Handled (fst r), snd r)"
  by (simp add: handled_def split: prod.splits)

lemma recent_all: "\<forall>t\<in>set ts. now < t + 60 \<Longrightarrow> recent now ts = ts"
  by (simp add: recent_def)

lemma serve_Cons:
  "serve route (t # ts) s =
     (fst (route t s) # fst (serve route ts (snd (route t s))),
      snd (serve route ts (snd (route t s))))"
  by (simp split: prod.splits)

lemma length_serve: "length (fst (serve route ts s)) = length ts"
  by (induction ts arbitrary: s) (simp_all add: serve_Cons del: serve.simps(2))

lemma serve_limited:
  fixes handler :: "('w, 'c, 'x) server \<Rightarrow> 'a reply \<times> ('w, 'c, 'x) server"
  assumes keep: "\<And>s. hits (snd (handler s)) = hits s"
      and answer: "\<And>s. fst (handler s) \<noteq> RateLimitExceeded"
  shows "i < length ts \<Longrightarrow>
         \<forall>t\<in>set ts \<union> set (hits s (client, route)). \<forall>t'\<in>set ts. t' < t + 60 \<Longrightarrow>
         (fst (serve (\<lambda>t. limited cap client route t handler) ts s) ! i = RateLimitExceeded)
           = (cap \<le> length (hits s (client, route)) + i)"
proof (induction ts arbitrary: s i)
  case Nil
  then show ?case by simp
next
  case (Cons t ts)
  let ?k = "(client, route)"
  let ?R = "\<lambda>t. limited cap client route t handler"
  have all: "recent t (hits s ?k) = hits s ?k"
    using Cons.prems(2) by (intro recent_all) auto
  obtain r s1 where step: "?R t s = (r, s1)" by (cases "?R t s")
  obtain rs s2 where rest: "serve ?R ts s1 = (rs, s2)" by (cases "serve ?R ts s1")
  have out: "fst (serve ?R (t # ts) s) = r # rs" using step rest by simp
  show ?case
  proof (cases "length (hits s ?k) < cap")
    case True
    then have run: "?R t s = handler (s\<lparr>hits := (hits s)(?k := t # hits s ?k)\<rparr>)"
      using all by (simp add: limited_under)
    have r: "r \<noteq> RateLimitExceeded" using step run answer by (metis fst_conv)
    have h1: "hits s1 ?k = t # hits s ?k"
      using step run keep [of "s\<lparr>hits := (hits s)(?k := t # hits s ?k)\<rparr>"] by simp
    show ?thesis
    proof (cases i)
      case 0
      then show ?thesis using out r True by simp
    next
      case (Suc j)
      have "(fst (serve ?R ts s1) ! j = RateLimitExceeded) = (cap \<le> length (hits s1 ?k) + j)"
        using Cons.prems Suc h1 by (intro Cons.IH) auto
      then show ?thesis using out rest Suc h1 by simp
    qed
  next
    case False
    then have run: "?R t s = (RateLimitExceeded, s\<lparr>hits := (hits s)(?k := hits s ?k)\<rparr>)"
      using all by (simp add: limited_over)
    have r: "r = RateLimitExceeded" and h1: "hits s1 ?k = hits s ?k"
      using step run by auto
    show ?thesis
    proof (cases i)
      case 0
      then show ?thesis using out r False by simp
    next
      case (Suc j)
      have "(fst (serve ?R ts s1) ! j = RateLimitExceeded) = (cap \<le> length (hits s1 ?k) + j)"
        using Cons.prems Suc h1 by (intro Cons.IH) auto
      then show ?thesis using out rest Suc h1 False by simp
    qed
  qed
qed

lemma burst_post:
  assumes "valid_IngestRequest body" and "hits s (client, ''ingest_repository'') = []"
      and "\<forall>t\<in>set ts. \<forall>t'\<in>set ts. t' < t + 60" and "i < length ts"
  shows "(fst (serve (\<lambda>t. route_ingest_post env client t body) ts s) ! i = RateLimitExceeded) = (5 \<le> i)"
proof -
  have "(\<lambda>t. route_ingest_post env client t body)
      = (\<lambda>t. limited 5 client ''ingest_repository'' t (\<lambda>s'. handled (ingest_repository env body s')))"
    using assms(1) by (intro ext) (simp add: route_ingest_post_def)
  moreover have "(fst (serve (\<lambda>t. limited 5 client ''ingest_repository'' t
                        (\<lambda>s'. handled (ingest_repository env body s'))) ts s) ! i = RateLimitExceeded)
      = (5 \<le> length (hits s (client, ''ingest_repository'')) + i)"
    using assms(2-4)
    by (intro serve_limited) (simp_all add: handled_split ingest_repository_hits)
  ultimately show ?thesis using assms(2) by simp
qed

lemma burst_get:
  assumes "hits s (client, ''ingest_repository_get'') = []"
      and "\<forall>t\<in>set ts. \<forall>t'\<in>set ts. t' < t + 60" and "i < length ts"
  shows "(fst (serve (\<lambda>t. route_ingest_get env client t src mfs inc exc br) ts s) ! i = RateLimitExceeded)
       = (5 \<le> i)"
proof -
  have "(fst (serve (\<lambda>t. limited 5 client ''ingest_repository_get'' t
                        (ingest_repository_get env src mfs inc exc br)) ts s) ! i = RateLimitExceeded)
      = (5 \<le> length (hits s (client, ''ingest_repository_get'')) + i)"
    using assms
    by (intro serve_limited) (simp_all add: ingest_repository_get_hits ingest_repository_get_not_limited)
  moreover have "(\<lambda>t. route_ingest_get env client t src mfs inc exc br)
      = (\<lambda>t. limited 5 client ''ingest_repository_get'' t (ingest_repository_get env src mfs inc exc br))"
    by (intro ext) (simp add: route_ingest_get_def)
  ultimately show ?thesis using assms(1) by simp
qed

lemma burst_summary:
  assumes "hits s (client, ''get_repository_summary'') = []"
      and "\<forall>t\<in>set ts. \<forall>t'\<in>set ts. t' < t + 60" and "i < length ts"
  shows "(fst (serve (\<lambda>t. route_summary env client t src br) ts s) ! i = RateLimitExceeded) = (10 \<le> i)"
proof -
  have "(fst (serve (\<lambda>t. limited 10 client ''get_repository_summary'' t
                        (\<lambda>s'. handled (get_repository_summary env src br s'))) ts s) ! i = RateLimitExceeded)
      = (10 \<le> length (hits s (client, ''get_repository_summary'')) + i)"
    using assms
    by (intro serve_limited) (simp_all add: handled_split get_repository_summary_hits)
  moreover have "(\<lambda>t. route_summary env client t src br)
      = (\<lambda>t. limited 10 client ''get_repository_summary'' t
              (\<lambda>s'. handled (get_repository_summary env src br s')))"
    by (intro ext) (simp add: route_summary_def)
  ultimately show ?thesis using assms(1) by simp
qed

section \<open>The claims\<close>

text \<open>
  Claim C1.  The GET adapter and the POST adapter agree on equal inputs: when the body
  of a POST is valid and the parameters of a GET carry the same source, the same size
  limit, pattern strings that normalise to the body's pattern sets, and the same
  branch, the two requests end in the same reply and leave the server in the same
  state (same world, same collaborator calls).
\<close>

theorem transports_agree:
  assumes "valid_IngestRequest body"
      and "src = source body" and "mfs = max_file_size body"
      and "normalize_patterns inc = include_patterns body"
      and "normalize_patterns exc = exclude_patterns body"
      and "br = branch body"
  shows "ingest_repository_get env src mfs inc exc br s = post_ingest env body s"
proof -
  have "\<lparr>source = src, max_file_size = mfs, include_patterns = normalize_patterns inc,
         exclude_patterns = normalize_patterns exc, branch = br\<rparr> = body"
    by (simp add: assms(2-6))
  then show ?thesis using assms(1)
    by (simp add: ingest_repository_get_def post_ingest_def Let_def)
qed

theorem transports_agree_witness:
  "ingest_repository_get (mock_env (Inr remote_query) (Inr ()) ingested_ok)
      ''https://github.com/test/repo'' (Some 1048576) (Some '' *.py,,*.py '') (Some []) (Some ''main'') started
   = post_ingest (mock_env (Inr remote_query) (Inr ()) ingested_ok) remote_request started
   \<and> fst (post_ingest (mock_env (Inr remote_query) (Inr ()) ingested_ok) remote_request started)
   = Handled (Returned (success_response remote_query (''Files analyzed: 5'', ''src/'', ''FILE: src/main.py'')))"
proof -
  have v: "valid_IngestRequest remote_request"
    by (simp add: valid_IngestRequest_def remote_request_def)
  have i: "normalize_patterns (Some '' *.py,,*.py '') = include_patterns remote_request"
    by (simp add: parse_patterns_def pattern_tokens_def strip_def isspace_def remote_request_def)
  have e: "normalize_patterns (Some []) = exclude_patterns remote_request"
    by (simp add: remote_request_def)
  have "ingest_repository_get (mock_env (Inr remote_query) (Inr ()) ingested_ok)
      ''https://github.com/test/repo'' (Some 1048576) (Some '' *.py,,*.py '') (Some []) (Some ''main'') started
   = post_ingest (mock_env (Inr remote_query) (Inr ()) ingested_ok) remote_request started"
    by (rule transports_agree [OF v _ _ i e]) (simp_all add: remote_request_def)
  moreover have "fst (post_ingest (mock_env (Inr remote_query) (Inr ()) ingested_ok) remote_request started)
   = Handled (Returned (success_response remote_query (''Files analyzed: 5'', ''src/'', ''FILE: src/main.py'')))"
    using v by (simp add: post_ingest_def handler_simps mock_simps)
  ultimately show ?thesis by simp
qed

text \<open>
  Claim C2, at the input where the code departs from it.  A request whose source is
  the empty string and whose size limit is within bounds passes the validation of
  \<open>IngestRequest\<close> on both transports: the first thing either handler does is to call
  the resolver with the empty source, and with collaborators that accept it the POST
  answers with a success response.
\<close>

theorem empty_source_reaches_resolver:
  "valid_IngestRequest empty_source_request
   \<and> source empty_source_request = []
   \<and> (\<exists>rest. calls (snd (post_ingest env empty_source_request s))
         = calls s @ ParseQuery [] (Some 1048576) True None None # rest)
   \<and> (\<exists>rest. calls (snd (ingest_repository_get env [] (Some 1048576) None None None s))
         = calls s @ ParseQuery [] (Some 1048576) True None None # rest)
   \<and> fst (post_ingest (mock_env (Inr local_query) (Inr ()) ingested_ok) empty_source_request started)
       = Handled (Returned (success_response local_query (''Files analyzed: 5'', ''src/'', ''FILE: src/main.py'')))"
proof -
  have v: "valid_IngestRequest empty_source_request"
    by (simp add: valid_IngestRequest_def empty_source_request_def)
  have g: "\<lparr>source = [], max_file_size = Some 1048576, include_patterns = normalize_patterns None,
            exclude_patterns = normalize_patterns None, branch = None\<rparr> = empty_source_request"
    by (simp add: empty_source_request_def)
  have p: "snd (post_ingest env empty_source_request s) = snd (ingest_repository env empty_source_request s)"
    using v by (simp add: post_ingest_def split: prod.splits)
  have q: "snd (ingest_repository_get env [] (Some 1048576) None None None s)
         = snd (ingest_repository env empty_source_request s)"
    using v g by (simp add: ingest_repository_get_def Let_def split: prod.splits)
  have f: "\<exists>rest. calls (snd (ingest_repository env empty_source_request s))
         = calls s @ ParseQuery [] (Some 1048576) True None None # rest"
    using ingest_repository_first_call [of env empty_source_request s]
    by (simp add: empty_source_request_def)
  have c: "fst (post_ingest (mock_env (Inr local_query) (Inr ()) ingested_ok) empty_source_request started)
       = Handled (Returned (success_response local_query (''Files analyzed: 5'', ''src/'', ''FILE: src/main.py'')))"
    using v by (simp add: post_ingest_def handler_simps mock_simps empty_source_request_def)
  show ?thesis using v p q f c by (simp add: empty_source_request_def)
qed

text \<open>
  Claim C3, as amended.  The kind of the exception decides, not the stage that raises
  it.  An exception \<open>e\<close> raised by the resolver, by the clone step (deriving the clone
  configuration, cloning) or by the ingestion ends the handler with \<open>on_exception e\<close>:
  \<open>HTTPException(400, m)\<close> when \<open>e\<close> is a \<open>ValueError\<close> with message \<open>m\<close>, and the
  envelope with \<open>success = False\<close> and \<open>error = m\<close> when \<open>e\<close> is any other exception
  with message \<open>m\<close>.  Conversely, an \<open>HTTPException\<close> of the handler has status 400 and
  carries the message of a \<open>ValueError\<close> raised by one of the three steps, and a
  failure envelope carries the message of an exception, not a \<open>ValueError\<close>, raised by
  one of them.  The clone step raises \<open>e\<close> exactly when the query has a url and
  either \<open>extract_clone_config\<close> raises \<open>e\<close> or it returns a configuration on which
  \<open>clone_repo\<close> raises \<open>e\<close>.
\<close>

theorem failure_routing:
  fixes env :: "('w, 'c, 'x) collaborators"
  shows
  "(resolve env body s = (Inl e, s1) \<longrightarrow>
      ingest_repository env body s = (on_exception e, s1))
 \<and> (resolve env body s = (Inr parsed, s1)
      \<and> clone_if_remote env (override_branch (branch body) parsed) s1 = (Inl e, s2) \<longrightarrow>
      ingest_repository env body s = (on_exception e, s2))
 \<and> (resolve env body s = (Inr parsed, s1)
      \<and> clone_if_remote env (override_branch (branch body) parsed) s1 = (Inr u, s2)
      \<and> ingest env (override_branch (branch body) parsed) s2 = (Inl e, s3) \<longrightarrow>
      ingest_repository env body s = (on_exception e, s3))
 \<and> on_exception (ValueError m) = HTTPException 400 (Some m)
 \<and> on_exception (OtherException m)
       = Returned \<lparr>success = False, data = None, error = Some m, metadata = None\<rparr>
 \<and> (fst (ingest_repository env body s) = HTTPException code detail \<longrightarrow>
      code = 400
    \<and> (\<exists>m'. detail = Some m'
          \<and> ((\<exists>t1. resolve env body s = (Inl (ValueError m'), t1))
             \<or> (\<exists>q t1 t2. resolve env body s = (Inr q, t1)
                   \<and> clone_if_remote env (override_branch (branch body) q) t1 = (Inl (ValueError m'), t2))
             \<or> (\<exists>q t1 t2 t3. resolve env body s = (Inr q, t1)
                   \<and> clone_if_remote env (override_branch (branch body) q) t1 = (Inr (), t2)
                   \<and> ingest env (override_branch (branch body) q) t2 = (Inl (ValueError m'), t3)))))
 \<and> (fst (ingest_repository env body s) = Returned r \<and> \<not> success r \<longrightarrow>
      (\<exists>m'. r = \<lparr>success = False, data = None, error = Some m', metadata = None\<rparr>
          \<and> ((\<exists>t1. resolve env body s = (Inl (OtherException m'), t1))
             \<or> (\<exists>q t1 t2. resolve env body s = (Inr q, t1)
                   \<and> clone_if_remote env (override_branch (branch body) q) t1 = (Inl (OtherException m'), t2))
             \<or> (\<exists>q t1 t2 t3. resolve env body s = (Inr q, t1)
                   \<and> clone_if_remote env (override_branch (branch body) q) t1 = (Inr (), t2)
                   \<and> ingest env (override_branch (branch body) q) t2 = (Inl (OtherException m'), t3)))))
 \<and> (fst (clone_if_remote env query s) = Inl e) =
     (truthy (url query)
      \<and> (fst (extract_clone_config env query (world s)) = Inl e
         \<or> (\<exists>cfg w. extract_clone_config env query (world s) = (Inr cfg, w)
               \<and> fst (clone_repo env cfg w) = Inl e)))"
proof -
  have a: "resolve env body s = (Inl e, s1) \<longrightarrow>
      ingest_repository env body s = (on_exception e, s1)"
    by (simp add: ingest_repository_def)
  have b: "resolve env body s = (Inr parsed, s1)
      \<and> clone_if_remote env (override_branch (branch body) parsed) s1 = (Inl e, s2) \<longrightarrow>
      ingest_repository env body s = (on_exception e, s2)"
    by (simp add: ingest_repository_def Let_def)
  have c: "resolve env body s = (Inr parsed, s1)
      \<and> clone_if_remote env (override_branch (branch body) parsed) s1 = (Inr u, s2)
      \<and> ingest env (override_branch (branch body) parsed) s2 = (Inl e, s3) \<longrightarrow>
      ingest_repository env body s = (on_exception e, s3)"
    by (simp add: ingest_repository_def Let_def)
  have d: "on_exception (ValueError m) = HTTPException 400 (Some m)" by simp
  have f: "on_exception (OtherException m)
       = Returned \<lparr>success = False, data = None, error = Some m, metadata = None\<rparr>" by simp
  have g: "fst (ingest_repository env body s) = HTTPException code detail \<longrightarrow>
      code = 400
    \<and> (\<exists>m'. detail = Some m'
          \<and> ((\<exists>t1. resolve env body s = (Inl (ValueError m'), t1))
             \<or> (\<exists>q t1 t2. resolve env body s = (Inr q, t1)
                   \<and> clone_if_remote env (override_branch (branch body) q) t1 = (Inl (ValueError m'), t2))
             \<or> (\<exists>q t1 t2 t3. resolve env body s = (Inr q, t1)
                   \<and> clone_if_remote env (override_branch (branch body) q) t1 = (Inr (), t2)
                   \<and> ingest env (override_branch (branch body) q) t2 = (Inl (ValueError m'), t3))))"
  proof
    assume h: "fst (ingest_repository env body s) = HTTPException code detail"
    then have "\<not> (\<exists>r. fst (ingest_repository env body s) = Returned r \<and> success r)" by simp
    from failure_source [OF this] obtain e'
      where o: "fst (ingest_repository env body s) = on_exception e'"
        and w: "(\<exists>t1. resolve env body s = (Inl e', t1))
             \<or> (\<exists>q t1 t2. resolve env body s = (Inr q, t1)
                   \<and> clone_if_remote env (override_branch (branch body) q) t1 = (Inl e', t2))
             \<or> (\<exists>q t1 t2 t3. resolve env body s = (Inr q, t1)
                   \<and> clone_if_remote env (override_branch (branch body) q) t1 = (Inr (), t2)
                   \<and> ingest env (override_branch (branch body) q) t2 = (Inl e', t3))"
      by (elim exE conjE)
    from o h have "on_exception e' = HTTPException code detail" by simp
    from on_exception_HTTP [OF this] obtain m'
      where k: "code = 400" and e': "e' = ValueError m'" and dt: "detail = Some m'" by (elim exE conjE)
    show "code = 400
    \<and> (\<exists>m'. detail = Some m'
          \<and> ((\<exists>t1. resolve env body s = (Inl (ValueError m'), t1))
             \<or> (\<exists>q t1 t2. resolve env body s = (Inr q, t1)
                   \<and> clone_if_remote env (override_branch (branch body) q) t1 = (Inl (ValueError m'), t2))
             \<or> (\<exists>q t1 t2 t3. resolve env body s = (Inr q, t1)
                   \<and> clone_if_remote env (override_branch (branch body) q) t1 = (Inr (), t2)
                   \<and> ingest env (override_branch (branch body) q) t2 = (Inl (ValueError m'), t3))))"
      using k dt w unfolding e' by (intro conjI exI [of _ m'])
  qed
  have i: "fst (ingest_repository env body s) = Returned r \<and> \<not> success r \<longrightarrow>
      (\<exists>m'. r = \<lparr>success = False, data = None, error = Some m', metadata = None\<rparr>
          \<and> ((\<exists>t1. resolve env body s = (Inl (OtherException m'), t1))
             \<or> (\<exists>q t1 t2. resolve env body s = (Inr q, t1)
                   \<and> clone_if_remote env (override_branch (branch body) q) t1 = (Inl (OtherException m'), t2))
             \<or> (\<exists>q t1 t2 t3. resolve env body s = (Inr q, t1)
                   \<and> clone_if_remote env (override_branch (branch body) q) t1 = (Inr (), t2)
                   \<and> ingest env (override_branch (branch body) q) t2 = (Inl (OtherException m'), t3))))"
  proof
    assume h: "fst (ingest_repository env body s) = Returned r \<and> \<not> success r"
    then have "\<not> (\<exists>r. fst (ingest_repository env body s) = Returned r \<and> success r)" by auto
    from failure_source [OF this] obtain e'
      where o: "fst (ingest_repository env body s) = on_exception e'"
        and w: "(\<exists>t1. resolve env body s = (Inl e', t1))
             \<or> (\<exists>q t1 t2. resolve env body s = (Inr q, t1)
                   \<and> clone_if_remote env (override_branch (branch body) q) t1 = (Inl e', t2))
             \<or> (\<exists>q t1 t2 t3. resolve env body s = (Inr q, t1)
                   \<and> clone_if_remote env (override_branch (branch body) q) t1 = (Inr (), t2)
                   \<and> ingest env (override_branch (branch body) q) t2 = (Inl e', t3))"
      by (elim exE conjE)
    from o h have r: "on_exception e' = Returned r" by simp
    then obtain m' where e': "e' = OtherException m'" by (cases e') auto
    from r have rr: "r = \<lparr>success = False, data = None, error = Some m', metadata = None\<rparr>"
      unfolding e' by simp
    show "\<exists>m'. r = \<lparr>success = False, data = None, error = Some m', metadata = None\<rparr>
          \<and> ((\<exists>t1. resolve env body s = (Inl (OtherException m'), t1))
             \<or> (\<exists>q t1 t2. resolve env body s = (Inr q, t1)
                   \<and> clone_if_remote env (override_branch (branch body) q) t1 = (Inl (OtherException m'), t2))
             \<or> (\<exists>q t1 t2 t3. resolve env body s = (Inr q, t1)
                   \<and> clone_if_remote env (override_branch (branch body) q) t1 = (Inr (), t2)
                   \<and> ingest env (override_branch (branch body) q) t2 = (Inl (OtherException m'), t3)))"
      using rr w unfolding e' by (intro conjI exI [of _ m'])
  qed
  note k = clone_if_remote_raises [of env query s e]
  from a b c d f g i k show ?thesis by (intro conjI)
qed

theorem failure_routing_witness:
  "ingest_repository (mock_env (Inl (ValueError ''Invalid repository URL'')) (Inr ()) ingested_ok)
      invalid_url_request started
     = (HTTPException 400 (Some ''Invalid repository URL''),
        started\<lparr>world := 1, calls := [ParseQuery ''invalid-url'' (Some 1048576) True None None]\<rparr>)
   \<and> fst (ingest_repository (mock_env (Inr remote_query) (Inl (OtherException ''network unreachable'')) ingested_ok)
          remote_request started)
     = Returned \<lparr>success = False, data = None, error = Some ''network unreachable'', metadata = None\<rparr>
   \<and> fst (ingest_repository (mock_env (Inr local_query) (Inr ()) (Inl (OtherException ''file too large'')))
          local_request started)
     = Returned \<lparr>success = False, data = None, error = Some ''file too large'', metadata = None\<rparr>
   \<and> (\<exists>t. resolve (mock_env (Inl (ValueError ''Invalid repository URL'')) (Inr ()) ingested_ok)
          invalid_url_request started
         = (Inl (ValueError ''Invalid repository URL''), t))
   \<and> (\<exists>q t1 t2 t3. resolve (mock_env (Inr local_query) (Inr ()) (Inl (OtherException ''file too large'')))
            local_request started = (Inr q, t1)
         \<and> clone_if_remote (mock_env (Inr local_query) (Inr ()) (Inl (OtherException ''file too large'')))
              (override_branch (branch local_request) q) t1 = (Inr (), t2)
         \<and> ingest (mock_env (Inr local_query) (Inr ()) (Inl (OtherException ''file too large'')))
              (override_branch (branch local_request) q) t2 = (Inl (OtherException ''file too large''), t3))
   \<and> (\<exists>m'. Some ''Invalid repository URL'' = Some m'
          \<and> ((\<exists>t1. resolve (mock_env (Inl (ValueError ''Invalid repository URL'')) (Inr ()) ingested_ok)
                      invalid_url_request started = (Inl (ValueError m'), t1))
             \<or> (\<exists>q t1 t2. resolve (mock_env (Inl (ValueError ''Invalid repository URL'')) (Inr ()) ingested_ok)
                      invalid_url_request started = (Inr q, t1)
                   \<and> clone_if_remote (mock_env (Inl (ValueError ''Invalid repository URL'')) (Inr ()) ingested_ok)
                        (override_branch (branch invalid_url_request) q) t1 = (Inl (ValueError m'), t2))
             \<or> (\<exists>q t1 t2 t3. resolve (mock_env (Inl (ValueError ''Invalid repository URL'')) (Inr ()) ingested_ok)
                      invalid_url_request started = (Inr q, t1)
                   \<and> clone_if_remote (mock_env (Inl (ValueError ''Invalid repository URL'')) (Inr ()) ingested_ok)
                        (override_branch (branch invalid_url_request) q) t1 = (Inr (), t2)
                   \<and> ingest (mock_env (Inl (ValueError ''Invalid repository URL'')) (Inr ()) ingested_ok)
                        (override_branch (branch invalid_url_request) q) t2 = (Inl (ValueError m'), t3))))"
proof -
  let ?e1 = "mock_env (Inl (ValueError ''Invalid repository URL'')) (Inr ()) ingested_ok"
  let ?b1 = invalid_url_request
  let ?e2 = "mock_env (Inr remote_query) (Inl (OtherException ''network unreachable'')) ingested_ok"
  let ?e3 = "mock_env (Inr local_query) (Inr ()) (Inl (OtherException ''file too large''))"
  let ?t1 = "started\<lparr>world := 1, calls := [ParseQuery ''invalid-url'' (Some 1048576) True None None]\<rparr>"
  have r1: "resolve ?e1 ?b1 started = (Inl (ValueError ''Invalid repository URL''), ?t1)"
    by (simp add: resolve_def invoke_def mock_simps invalid_url_request_def)
  have one: "ingest_repository ?e1 ?b1 started = (HTTPException 400 (Some ''Invalid repository URL''), ?t1)"
    using failure_routing [where env = ?e1 and body = ?b1 and s = started
        and e = "ValueError ''Invalid repository URL''" and ?s1.0 = ?t1, THEN conjunct1] r1
    by simp
  have r2: "resolve ?e2 remote_request started = (Inr remote_query, snd (resolve ?e2 remote_request started))
      \<and> clone_if_remote ?e2 (override_branch (branch remote_request) remote_query)
            (snd (resolve ?e2 remote_request started))
          = (Inl (OtherException ''network unreachable''),
             snd (clone_if_remote ?e2 remote_query (snd (resolve ?e2 remote_request started))))"
    by (simp add: resolve_def invoke_def clone_if_remote_def override_branch_def mock_simps)
  have two: "fst (ingest_repository ?e2 remote_request started)
     = Returned \<lparr>success = False, data = None, error = Some ''network unreachable'', metadata = None\<rparr>"
    using failure_routing [where env = ?e2 and body = remote_request and s = started
        and e = "OtherException ''network unreachable''" and parsed = remote_query
        and ?s1.0 = "snd (resolve ?e2 remote_request started)"
        and ?s2.0 = "snd (clone_if_remote ?e2 remote_query (snd (resolve ?e2 remote_request started)))",
        THEN conjunct2, THEN conjunct1, rule_format, OF r2]
    by simp
  have r3: "resolve ?e3 local_request started = (Inr local_query, snd (resolve ?e3 local_request started))
      \<and> clone_if_remote ?e3 (override_branch (branch local_request) local_query)
            (snd (resolve ?e3 local_request started))
          = (Inr (), snd (resolve ?e3 local_request started))
      \<and> ingest ?e3 (override_branch (branch local_request) local_query) (snd (resolve ?e3 local_request started))
          = (Inl (OtherException ''file too large''),
             snd (ingest ?e3 local_query (snd (resolve ?e3 local_request started))))"
    by (simp add: resolve_def ingest_def invoke_def clone_if_remote_def override_branch_def mock_simps)
  have three: "fst (ingest_repository ?e3 local_request started)
     = Returned \<lparr>success = False, data = None, error = Some ''file too large'', metadata = None\<rparr>"
    using failure_routing [where env = ?e3 and body = local_request and s = started
        and e = "OtherException ''file too large''" and parsed = local_query
        and ?s1.0 = "snd (resolve ?e3 local_request started)"
        and ?s2.0 = "snd (resolve ?e3 local_request started)" and u = "()"
        and ?s3.0 = "snd (ingest ?e3 local_query (snd (resolve ?e3 local_request started)))",
        THEN conjunct2, THEN conjunct2, THEN conjunct1, rule_format, OF r3]
    by simp
  have four: "\<exists>t. resolve ?e1 ?b1 started = (Inl (ValueError ''Invalid repository URL''), t)"
    using r1 by (rule exI)
  have five: "\<exists>q t1 t2 t3. resolve ?e3 local_request started = (Inr q, t1)
         \<and> clone_if_remote ?e3 (override_branch (branch local_request) q) t1 = (Inr (), t2)
         \<and> ingest ?e3 (override_branch (branch local_request) q) t2 = (Inl (OtherException ''file too large''), t3)"
    using r3 by (intro exI)
  have six: "fst (ingest_repository ?e1 ?b1 started) = HTTPException 400 (Some ''Invalid repository URL'')"
    using one by simp
  note seven = failure_routing [where env = ?e1 and body = ?b1 and s = started and code = 400
        and detail = "Some ''Invalid repository URL''",
        THEN conjunct2, THEN conjunct2, THEN conjunct2, THEN conjunct2, THEN conjunct2, THEN conjunct1,
        rule_format, OF six, THEN conjunct2]
  from one two three four five seven show ?thesis by (intro conjI)
qed

theorem clone_value_error_counterexample:
  "fst (ingest_repository (mock_env (Inr remote_query) (Inl (ValueError ''Repository not found'')) ingested_ok)
          remote_request started)
     = HTTPException 400 (Some ''Repository not found'')
   \<and> fst (ingest_repository (mock_env (Inr remote_query) (Inl (ValueError ''Repository not found'')) ingested_ok)
          remote_request started)
     \<noteq> Returned \<lparr>success = False, data = None, error = Some ''Repository not found'', metadata = None\<rparr>
   \<and> fst (ingest_repository (mock_env (Inr local_query) (Inr ()) (Inl (ValueError ''local-project cannot be found'')))
          local_request started)
     = HTTPException 400 (Some ''local-project cannot be found'')"
  by (simp add: handler_simps mock_simps)

text \<open>
  Claim C4.  When resolution, acquisition and ingestion succeed on a resolved query
  that satisfies the invariant of the data model (user name and repository name
  present exactly when the url is), the metadata has exactly the keys \<open>source_type\<close>,
  \<open>repository\<close>, \<open>branch\<close> and \<open>subpath\<close>.  \<open>source_type\<close> is \<open>remote\<close> when the
  resolved query has a url and \<open>local\<close> otherwise.  \<open>repository\<close> is the user name,
  a slash and the repository name when both are present, and the slug otherwise.
  \<open>branch\<close> is the branch of the resolved query, after the override of the request,
  or \<open>default\<close> when there is none.  \<open>subpath\<close> is the resolved subpath.
\<close>

theorem success_metadata:
  assumes "fst (parse_query env (source body) (max_file_size body) True
                  (include_patterns body) (exclude_patterns body) (world s)) = Inr parsed"
      and "conforming parsed"
      and "fst (ingest_repository env body s) = Returned r"
      and "success r"
  shows "\<exists>m. metadata r = Some m
           \<and> dom m = {''source_type'', ''repository'', ''branch'', ''subpath''}
           \<and> m ''source_type'' = Some (if truthy (url parsed) then ''remote'' else ''local'')
           \<and> m ''repository'' =
                Some (if truthy (user_name parsed) \<and> truthy (repo_name parsed)
                      then py_format (user_name parsed) @ ''/'' @ py_format (repo_name parsed)
                      else slug parsed)
           \<and> (\<forall>u p. user_name parsed = Some u \<and> u \<noteq> [] \<and> repo_name parsed = Some p \<and> p \<noteq> []
                  \<longrightarrow> m ''repository'' = Some (u @ ''/'' @ p))
           \<and> m ''branch'' = Some (py_or (query_branch (override_branch (branch body) parsed)) ''default'')
           \<and> m ''subpath'' = Some (subpath parsed)"
proof -
  let ?q = "override_branch (branch body) parsed"
  from returned_success [OF assms(1) assms(3) assms(4)]
  obtain res where "r = success_response ?q res" by blast
  then have m: "metadata r = Some (make_metadata ?q)" by (simp add: success_response_fields)
  have both: "truthy (user_name parsed) = (truthy (user_name parsed) \<and> truthy (repo_name parsed))"
    using assms(2) by (auto simp: conforming_def)
  have repo: "make_metadata ?q ''repository'' =
      Some (if truthy (user_name parsed) \<and> truthy (repo_name parsed)
            then py_format (user_name parsed) @ ''/'' @ py_format (repo_name parsed)
            else slug parsed)"
    using both by (simp add: make_metadata_lookup override_branch_keeps)
  have named: "\<forall>u p. user_name parsed = Some u \<and> u \<noteq> [] \<and> repo_name parsed = Some p \<and> p \<noteq> []
      \<longrightarrow> make_metadata ?q ''repository'' = Some (u @ ''/'' @ p)"
    by (simp add: repo)
  have kind: "make_metadata ?q ''source_type'' = Some (if truthy (url parsed) then ''remote'' else ''local'')"
    by (simp add: make_metadata_lookup override_branch_url)
  have br: "make_metadata ?q ''branch'' = Some (py_or (query_branch ?q) ''default'')"
    by (simp add: make_metadata_lookup)
  have sub: "make_metadata ?q ''subpath'' = Some (subpath parsed)"
    by (simp add: make_metadata_lookup override_branch_keeps)
  show ?thesis
    using m make_metadata_dom [of ?q] kind repo named br sub
    by (intro exI [of _ "make_metadata ?q"] conjI)
qed

theorem success_metadata_witness:
  "conforming remote_query \<and> conforming local_query
   \<and> fst (ingest_repository (mock_env (Inr remote_query) (Inr ()) ingested_ok) remote_request started)
     = Returned (success_response remote_query (''Files analyzed: 5'', ''src/'', ''FILE: src/main.py''))
   \<and> (\<exists>m. metadata (success_response remote_query (''Files analyzed: 5'', ''src/'', ''FILE: src/main.py'')) = Some m
          \<and> m ''source_type'' = Some ''remote'' \<and> m ''repository'' = Some ''test/repo''
          \<and> m ''branch'' = Some ''main'' \<and> m ''subpath'' = Some ''/'')
   \<and> fst (ingest_repository (mock_env (Inr local_query) (Inr ()) ingested_ok) local_request started)
     = Returned (success_response local_query (''Files analyzed: 5'', ''src/'', ''FILE: src/main.py''))
   \<and> (\<exists>m. metadata (success_response local_query (''Files analyzed: 5'', ''src/'', ''FILE: src/main.py'')) = Some m
          \<and> m ''source_type'' = Some ''local'' \<and> m ''repository'' = Some ''local-project''
          \<and> m ''branch'' = Some ''default'' \<and> m ''subpath'' = Some ''/'')"
proof -
  let ?res = "(''Files analyzed: 5'', ''src/'', ''FILE: src/main.py'')"
  let ?remote = "mock_env (Inr remote_query) (Inr ()) ingested_ok"
  let ?local = "mock_env (Inr local_query) (Inr ()) ingested_ok"
  have c1: "conforming remote_query" and c2: "conforming local_query"
    by (simp_all add: conforming_def remote_query_def local_query_def)
  have p1: "fst (parse_query ?remote (source remote_request) (max_file_size remote_request) True
              (include_patterns remote_request) (exclude_patterns remote_request) (world started))
            = Inr remote_query"
    and p2: "fst (parse_query ?local (source local_request) (max_file_size local_request) True
              (include_patterns local_request) (exclude_patterns local_request) (world started))
            = Inr local_query"
    by (simp_all add: mock_env_def)
  have r1: "fst (ingest_repository ?remote remote_request started)
      = Returned (success_response remote_query ?res)"
    and r2: "fst (ingest_repository ?local local_request started)
      = Returned (success_response local_query ?res)"
    by (simp_all add: handler_simps mock_simps)
  have s1: "success (success_response remote_query ?res)"
    and s2: "success (success_response local_query ?res)"
    by (simp_all add: success_response_def)
  have m1: "\<exists>m. metadata (success_response remote_query ?res) = Some m
          \<and> m ''source_type'' = Some ''remote'' \<and> m ''repository'' = Some ''test/repo''
          \<and> m ''branch'' = Some ''main'' \<and> m ''subpath'' = Some ''/''"
  proof -
    from success_metadata [OF p1 c1 r1 s1] obtain m
      where a: "metadata (success_response remote_query ?res) = Some m"
        and k: "m ''source_type'' = Some (if truthy (url remote_query) then ''remote'' else ''local'')"
        and n: "m ''repository'' =
                  Some (if truthy (user_name remote_query) \<and> truthy (repo_name remote_query)
                        then py_format (user_name remote_query) @ ''/'' @ py_format (repo_name remote_query)
                        else slug remote_query)"
        and b: "m ''branch'' =
                  Some (py_or (query_branch (override_branch (branch remote_request) remote_query)) ''default'')"
        and p: "m ''subpath'' = Some (subpath remote_query)"
      by (elim exE conjE)
    have "m ''source_type'' = Some ''remote''" using k by (simp add: remote_query_def)
    moreover have "m ''repository'' = Some ''test/repo''" using n by (simp add: remote_query_def)
    moreover have "m ''branch'' = Some ''main''"
      using b by (simp add: remote_query_def remote_request_def override_branch_def)
    moreover have "m ''subpath'' = Some ''/''" using p by (simp add: remote_query_def)
    ultimately show ?thesis using a by (intro exI [of _ m] conjI)
  qed
  have m2: "\<exists>m. metadata (success_response local_query ?res) = Some m
          \<and> m ''source_type'' = Some ''local'' \<and> m ''repository'' = Some ''local-project''
          \<and> m ''branch'' = Some ''default'' \<and> m ''subpath'' = Some ''/''"
  proof -
    from success_metadata [OF p2 c2 r2 s2] obtain m
      where a: "metadata (success_response local_query ?res) = Some m"
        and k: "m ''source_type'' = Some (if truthy (url local_query) then ''remote'' else ''local'')"
        and n: "m ''repository'' =
                  Some (if truthy (user_name local_query) \<and> truthy (repo_name local_query)
                        then py_format (user_name local_query) @ ''/'' @ py_format (repo_name local_query)
                        else slug local_query)"
        and b: "m ''branch'' =
                  Some (py_or (query_branch (override_branch (branch local_request) local_query)) ''default'')"
        and p: "m ''subpath'' = Some (subpath local_query)"
      by (elim exE conjE)
    have "m ''source_type'' = Some ''local''" using k by (simp add: local_query_def)
    moreover have "m ''repository'' = Some ''local-project''" using n by (simp add: local_query_def)
    moreover have "m ''branch'' = Some ''default''"
      using b by (simp add: local_query_def local_request_def override_branch_def)
    moreover have "m ''subpath'' = Some ''/''" using p by (simp add: local_query_def)
    ultimately show ?thesis using a by (intro exI [of _ m] conjI)
  qed
  from c1 c2 r1 m1 r2 m2 show ?thesis by (intro conjI)
qed

text \<open>
  Claim C5.  Every \<open>IngestResponse\<close> returned by the POST or the GET endpoint is of one
  of two shapes.  With \<open>success = True\<close>: \<open>data\<close> is the dictionary of \<open>summary\<close>,
  \<open>tree\<close> and \<open>content\<close> (all three), \<open>error\<close> is absent and \<open>metadata\<close> is present.
  With \<open>success = False\<close>: \<open>data\<close> is absent, \<open>error\<close> is present and \<open>metadata\<close> is
  absent.
\<close>

theorem response_envelope_invariant:
  assumes "fst (post_ingest env body s) = Handled (Returned r)
         \<or> fst (ingest_repository_get env src mfs inc exc br s) = Handled (Returned r)"
  shows "(success r \<longrightarrow>
            (\<exists>summary tree content.
               data r = Some [''summary'' \<mapsto> summary, ''tree'' \<mapsto> tree, ''content'' \<mapsto> content])
            \<and> error r = None \<and> metadata r \<noteq> None)
       \<and> (\<not> success r \<longrightarrow> data r = None \<and> error r \<noteq> None \<and> metadata r = None)"
proof -
  from assms have "\<exists>b. fst (ingest_repository env b s) = Returned r"
    using post_ingest_handled get_handled by blast
  then show ?thesis using returned_shape by blast
qed

theorem response_envelope_invariant_witness:
  "fst (post_ingest (mock_env (Inr remote_query) (Inr ()) ingested_ok) remote_request started)
     = Handled (Returned (success_response remote_query (''Files analyzed: 5'', ''src/'', ''FILE: src/main.py'')))
   \<and> success (success_response remote_query (''Files analyzed: 5'', ''src/'', ''FILE: src/main.py''))
   \<and> error (success_response remote_query (''Files analyzed: 5'', ''src/'', ''FILE: src/main.py'')) = None
   \<and> metadata (success_response remote_query (''Files analyzed: 5'', ''src/'', ''FILE: src/main.py'')) \<noteq> None
   \<and> fst (ingest_repository_get (mock_env (Inr remote_query) (Inl (OtherException ''network unreachable'')) ingested_ok)
             ''https://github.com/test/repo'' None None None None started)
     = Handled (Returned \<lparr>success = False, data = None, error = Some ''network unreachable'', metadata = None\<rparr>)"
  using response_envelope_invariant [of "mock_env (Inr remote_query) (Inr ()) ingested_ok" remote_request started
      "success_response remote_query (''Files analyzed: 5'', ''src/'', ''FILE: src/main.py'')"
      "[]" None None None None]
    response_envelope_invariant [of "mock_env (Inr remote_query) (Inl (OtherException ''network unreachable'')) ingested_ok"
      remote_request started
      "\<lparr>success = False, data = None, error = Some ''network unreachable'', metadata = None\<rparr>"
      "''https://github.com/test/repo''" None None None None]
  by (simp add: post_ingest_def ingest_repository_get_def valid_IngestRequest_def handler_simps mock_simps)

text \<open>
  Claim C6.  When the resolver returns a query without a url (absent, or empty), the
  handler makes exactly two collaborator calls: the resolution and then the ingestion
  of the query.  No clone configuration is derived and \<open>clone_repo\<close> is not called.
\<close>

theorem local_source_skips_clone:
  assumes "fst (parse_query env (source body) (max_file_size body) True
                  (include_patterns body) (exclude_patterns body) (world s)) = Inr parsed"
      and "\<not> truthy (url parsed)"
  shows "calls (snd (ingest_repository env body s)) =
           calls s @ [ParseQuery (source body) (max_file_size body) True
                        (include_patterns body) (exclude_patterns body),
                      IngestQuery (override_branch (branch body) parsed)]"
proof -
  let ?q = "override_branch (branch body) parsed"
  obtain s1 where r: "resolve env body s = (Inr parsed, s1)"
    using assms(1) by (simp add: resolve_split)
  have c: "clone_if_remote env ?q s1 = (Inr (), s1)"
    using assms(2) by (simp add: clone_if_remote_local override_branch_url)
  have s1: "calls s1 = calls s @ [ParseQuery (source body) (max_file_size body) True
                        (include_patterns body) (exclude_patterns body)]"
    using r by (auto simp: resolve_split)
  have "snd (ingest_repository env body s) = snd (ingest env ?q s1)"
    using r c by (simp add: ingest_repository_def Let_def split: prod.splits sum.splits)
  then show ?thesis using s1 by (simp add: ingest_split)
qed

theorem local_source_skips_clone_witness:
  "\<not> truthy (url local_query)
   \<and> calls (snd (ingest_repository (mock_env (Inr local_query) (Inr ()) ingested_ok) local_request started))
     = [ParseQuery ''/path/to/local/project'' (Some 1048576) True None None, IngestQuery local_query]"
  using local_source_skips_clone [of "mock_env (Inr local_query) (Inr ()) ingested_ok" local_request started local_query]
  by (simp add: mock_simps override_branch_def)

text \<open>
  Claim C7.  The normalisation of the GET adapter splits the string at its commas
  (joining the pieces with commas gives the string back, and no piece holds a comma),
  trims each piece (a piece is its trimmed form between two runs of whitespace, and a
  non-empty trimmed form neither starts nor ends with whitespace), drops the pieces
  that are empty after trimming, and collects the rest in a set.  It is idempotent:
  a comma-joined listing of a normalised set normalises to the same set, also through
  the guard of the adapter when the set is not empty.  The two strings of the test
  suite normalise to the sets \<open>{*.py, *.md, *.txt}\<close> and \<open>{*.log, *.tmp}\<close>.
\<close>

theorem pattern_normalization:
  "(p \<in> parse_patterns s \<longleftrightarrow> p \<noteq> [] \<and> (\<exists>t\<in>set (split_comma s). p = strip t))
   \<and> join_comma (split_comma s) = s
   \<and> (\<forall>t\<in>set (split_comma s). CHR '','' \<notin> set t)
   \<and> (\<exists>l r. t = l @ strip t @ r \<and> (\<forall>c\<in>set l. isspace c) \<and> (\<forall>c\<in>set r. isspace c))
   \<and> (strip t \<noteq> [] \<longrightarrow> \<not> isspace (hd (strip t)) \<and> \<not> isspace (last (strip t)))
   \<and> (set xs = parse_patterns s \<longrightarrow> parse_patterns (join_comma xs) = parse_patterns s)
   \<and> (set xs = parse_patterns s \<and> xs \<noteq> [] \<longrightarrow>
        normalize_patterns (Some (join_comma xs)) = normalize_patterns (Some s))
   \<and> normalize_patterns (Some ''*.py, *.md, *.txt'') = Some {''*.py'', ''*.md'', ''*.txt''}
   \<and> normalize_patterns (Some ''*.log,  *.tmp '') = Some {''*.log'', ''*.tmp''}"
proof (intro conjI impI)
  show "p \<in> parse_patterns s \<longleftrightarrow> p \<noteq> [] \<and> (\<exists>t\<in>set (split_comma s). p = strip t)"
    by (rule parse_patterns_iff)
  show "join_comma (split_comma s) = s" by (rule join_split)
  show "\<forall>t\<in>set (split_comma s). CHR '','' \<notin> set t" using split_no_comma by blast
  show "\<exists>l r. t = l @ strip t @ r \<and> (\<forall>c\<in>set l. isspace c) \<and> (\<forall>c\<in>set r. isspace c)"
    by (rule strip_trims)
  show "\<not> isspace (hd (strip t))" if "strip t \<noteq> []" using that by (rule strip_ends)
  show "\<not> isspace (last (strip t))" if "strip t \<noteq> []" using that by (rule strip_ends)
  show "parse_patterns (join_comma xs) = parse_patterns s" if "set xs = parse_patterns s"
    using that by (rule parse_join_canonical)
  show "normalize_patterns (Some (join_comma xs)) = normalize_patterns (Some s)"
    if h: "set xs = parse_patterns s \<and> xs \<noteq> []"
  proof -
    have j: "join_comma xs \<noteq> []"
    proof
      assume "join_comma xs = []"
      then have "pattern_tokens (join_comma xs) = []" by (simp add: pattern_tokens_def strip_def)
      then have "parse_patterns (join_comma xs) = {}" by (simp add: parse_patterns_def)
      then show False using h parse_join_canonical [of xs s] by simp
    qed
    have "s \<noteq> []"
    proof
      assume "s = []"
      then have "parse_patterns s = {}" by (simp add: parse_patterns_def pattern_tokens_def strip_def)
      then show False using h by simp
    qed
    then show ?thesis using j h parse_join_canonical [of xs s] by simp
  qed
  show "normalize_patterns (Some ''*.py, *.md, *.txt'') = Some {''*.py'', ''*.md'', ''*.txt''}"
    by (simp add: parse_patterns_def pattern_tokens_def strip_def isspace_def)
  show "normalize_patterns (Some ''*.log,  *.tmp '') = Some {''*.log'', ''*.tmp''}"
    by (simp add: parse_patterns_def pattern_tokens_def strip_def isspace_def)
qed

theorem pattern_normalization_witness:
  "''*.md'' \<in> parse_patterns '' *.md ,,*.py, *.md''
   \<and> parse_patterns (join_comma [''*.py'', ''*.md'']) = parse_patterns '' *.md ,,*.py, *.md''
   \<and> normalize_patterns (Some ''*.py,*.md'') = normalize_patterns (Some '' *.md ,,*.py, *.md'')
   \<and> \<not> isspace (hd (strip '' *.md '')) \<and> \<not> isspace (last (strip '' *.md ''))
   \<and> CHR '','' \<notin> set ''*.py''"
  using pattern_normalization [of "''*.md''" "'' *.md ,,*.py, *.md''" "'' *.md ''" "[''*.py'', ''*.md'']"]
  by (simp add: parse_patterns_def pattern_tokens_def strip_def isspace_def insert_commute)

text \<open>
  Claim C8.  When the full pipeline returns a success response for the request the
  summary endpoint builds, the endpoint returns a dictionary with exactly the keys
  \<open>source\<close>, \<open>summary\<close>, \<open>repository\<close> and \<open>branch\<close> (neither \<open>tree\<close> nor
  \<open>content\<close>): the caller's source, the summary of the response's data, and the
  repository and branch of its metadata.  When the pipeline returns a failure
  response, the endpoint raises \<open>HTTPException(400)\<close> with the response's error as
  detail; an \<open>HTTPException\<close> of the pipeline passes through.  The endpoint makes no
  collaborator call of its own, and the request it builds is valid.
\<close>

theorem summary_view:
  fixes env :: "('w, 'c, 'x) collaborators"
  shows
  "(fst (ingest_repository env (summary_request src br) s) = Returned r \<and> success r \<longrightarrow>
      (\<exists>m d md. fst (get_repository_summary env src br s) = Returned m
         \<and> dom m = {''source'', ''summary'', ''repository'', ''branch''}
         \<and> data r = Some d \<and> metadata r = Some md
         \<and> m ''source'' = Some src
         \<and> m ''summary'' = d ''summary''
         \<and> m ''repository'' = md ''repository''
         \<and> m ''branch'' = md ''branch''
         \<and> m ''tree'' = None \<and> m ''content'' = None))
   \<and> (fst (ingest_repository env (summary_request src br) s) = Returned r \<and> \<not> success r \<longrightarrow>
        error r \<noteq> None
      \<and> fst (get_repository_summary env src br s) = HTTPException 400 (error r))
   \<and> (fst (ingest_repository env (summary_request src br) s) = HTTPException code detail \<longrightarrow>
        fst (get_repository_summary env src br s) = HTTPException code detail)
   \<and> snd (get_repository_summary env src br s)
       = snd (ingest_repository env (summary_request src br) s)
   \<and> valid_IngestRequest (summary_request src br)"
proof (intro conjI impI)
  assume h: "fst (ingest_repository env (summary_request src br) s) = Returned r \<and> success r"
  then obtain q :: "'x IngestionQuery_scheme" and res where r: "r = success_response q res"
    using success_is_success_response [of env "summary_request src br" s r] by blast
  let ?m = "[''source'' \<mapsto> src, ''summary'' \<mapsto> fst res,
             ''repository'' \<mapsto> the (make_metadata q ''repository''),
             ''branch'' \<mapsto> the (make_metadata q ''branch'')]"
  have "fst (get_repository_summary env src br s) = reduce_to_summary src r"
    using h by (simp add: summary_split)
  then have g: "fst (get_repository_summary env src br s) = Returned ?m"
    by (simp add: r reduce_success_response)
  have d: "data r = Some [''summary'' \<mapsto> fst res, ''tree'' \<mapsto> fst (snd res), ''content'' \<mapsto> snd (snd res)]"
    and md: "metadata r = Some (make_metadata q)"
    by (simp_all add: r success_response_fields)
  have "dom ?m = {''source'', ''summary'', ''repository'', ''branch''}" by auto
  moreover have "?m ''source'' = Some src" by simp
  moreover have "?m ''summary'' = [''summary'' \<mapsto> fst res, ''tree'' \<mapsto> fst (snd res), ''content'' \<mapsto> snd (snd res)] ''summary''"
    by simp
  moreover have "?m ''repository'' = make_metadata q ''repository''"
    by (simp add: make_metadata_lookup)
  moreover have "?m ''branch'' = make_metadata q ''branch''"
    by (simp add: make_metadata_lookup)
  moreover have "?m ''tree'' = None" "?m ''content'' = None" by simp_all
  ultimately show "\<exists>m d md. fst (get_repository_summary env src br s) = Returned m
         \<and> dom m = {''source'', ''summary'', ''repository'', ''branch''}
         \<and> data r = Some d \<and> metadata r = Some md
         \<and> m ''source'' = Some src
         \<and> m ''summary'' = d ''summary''
         \<and> m ''repository'' = md ''repository''
         \<and> m ''branch'' = md ''branch''
         \<and> m ''tree'' = None \<and> m ''content'' = None"
    using g d md by blast
next
  assume h: "fst (ingest_repository env (summary_request src br) s) = Returned r \<and> \<not> success r"
  then show "error r \<noteq> None" using returned_shape by blast
  show "fst (get_repository_summary env src br s) = HTTPException 400 (error r)"
    using h by (simp add: summary_split reduce_to_summary_def)
next
  assume "fst (ingest_repository env (summary_request src br) s) = HTTPException code detail"
  then show "fst (get_repository_summary env src br s) = HTTPException code detail"
    by (simp add: summary_split)
next
  show "snd (get_repository_summary env src br s) = snd (ingest_repository env (summary_request src br) s)"
    by (simp add: summary_split)
  show "valid_IngestRequest (summary_request src br)" by (rule summary_request_valid)
qed

theorem summary_view_witness:
  "(\<exists>m. fst (get_repository_summary (mock_env (Inr remote_query) (Inr ()) ingested_ok)
              ''https://github.com/test/repo'' (Some ''main'') started) = Returned m
          \<and> dom m = {''source'', ''summary'', ''repository'', ''branch''})
   \<and> fst (get_repository_summary (mock_env (Inr remote_query) (Inr ()) ingested_ok)
          ''https://github.com/test/repo'' (Some ''main'') started)
     = Returned [''source'' \<mapsto> ''https://github.com/test/repo'', ''summary'' \<mapsto> ''Files analyzed: 5'',
                 ''repository'' \<mapsto> ''test/repo'', ''branch'' \<mapsto> ''main'']
   \<and> fst (get_repository_summary (mock_env (Inr remote_query) (Inl (OtherException ''network unreachable'')) ingested_ok)
          ''https://github.com/test/repo'' None started)
     = HTTPException 400 (Some ''network unreachable'')
   \<and> fst (get_repository_summary (mock_env (Inl (ValueError ''Invalid repository URL'')) (Inr ()) ingested_ok)
          ''invalid-url'' None started)
     = HTTPException 400 (Some ''Invalid repository URL'')"
proof -
  let ?ok = "mock_env (Inr remote_query) (Inr ()) ingested_ok"
  let ?net = "mock_env (Inr remote_query) (Inl (OtherException ''network unreachable'')) ingested_ok"
  let ?bad = "mock_env (Inl (ValueError ''Invalid repository URL'')) (Inr ()) ingested_ok"
  let ?r = "success_response remote_query (''Files analyzed: 5'', ''src/'', ''FILE: src/main.py'')"
  have run: "fst (ingest_repository ?ok (summary_request ''https://github.com/test/repo'' (Some ''main'')) started)
        = Returned ?r \<and> success ?r"
    by (simp add: summary_request_def handler_simps mock_simps)
  have "\<exists>m. fst (get_repository_summary ?ok ''https://github.com/test/repo'' (Some ''main'') started) = Returned m
          \<and> dom m = {''source'', ''summary'', ''repository'', ''branch''}"
    using summary_view [of ?ok "''https://github.com/test/repo''" "Some ''main''" started ?r 400 None,
      THEN conjunct1, rule_format, OF run]
    by blast
  moreover
  have "fst (get_repository_summary ?ok ''https://github.com/test/repo'' (Some ''main'') started)
     = Returned [''source'' \<mapsto> ''https://github.com/test/repo'', ''summary'' \<mapsto> ''Files analyzed: 5'',
                 ''repository'' \<mapsto> ''test/repo'', ''branch'' \<mapsto> ''main'']"
    by (simp add: get_repository_summary_def reduce_to_summary_def summary_request_def get_or_empty_def
        make_metadata_def handler_simps mock_simps)
  moreover have "fst (get_repository_summary ?net ''https://github.com/test/repo'' None started)
     = HTTPException 400 (Some ''network unreachable'')"
    using summary_view [of ?net "''https://github.com/test/repo''" None started
        "\<lparr>success = False, data = None, error = Some ''network unreachable'', metadata = None\<rparr>" 400 None]
    by (simp add: summary_request_def handler_simps mock_simps)
  moreover have "fst (get_repository_summary ?bad ''invalid-url'' None started)
     = HTTPException 400 (Some ''Invalid repository URL'')"
    using summary_view [of ?bad "''invalid-url''" None started
        "\<lparr>success = False, data = None, error = None, metadata = None\<rparr>" 400 "Some ''Invalid repository URL''"]
    by (simp add: summary_request_def handler_simps mock_simps)
  ultimately show ?thesis by blast
qed

text \<open>
  Claim C9.  With the limiter modelled from the spec: a request to \<open>POST /ingest\<close> or
  \<open>GET /ingest\<close> from a client with five requests admitted on that route in the last
  minute, and a request to the summary route with ten, is refused with
  \<open>RateLimitExceeded\<close> and neither calls a collaborator nor changes the world; below
  the cap a request is not refused by the limiter.  In a burst of requests from one
  client within one minute, starting from an empty store, request number \<open>i\<close>
  (counting from 0) is refused exactly when \<open>i\<close> is at least the cap: the sixth
  request to an ingestion route, the eleventh to the summary route.
\<close>

theorem rate_limits:
  "((5 \<le> length (recent now (hits s (client, ''ingest_repository''))) \<and> valid_IngestRequest body \<longrightarrow>
      fst (route_ingest_post env client now body s) = RateLimitExceeded
    \<and> calls (snd (route_ingest_post env client now body s)) = calls s
    \<and> world (snd (route_ingest_post env client now body s)) = world s)
 \<and> (5 \<le> length (recent now (hits s (client, ''ingest_repository_get''))) \<longrightarrow>
      fst (route_ingest_get env client now src mfs inc exc br s) = RateLimitExceeded
    \<and> calls (snd (route_ingest_get env client now src mfs inc exc br s)) = calls s
    \<and> world (snd (route_ingest_get env client now src mfs inc exc br s)) = world s)
 \<and> (10 \<le> length (recent now (hits s (client, ''get_repository_summary''))) \<longrightarrow>
      fst (route_summary env client now src br s) = RateLimitExceeded
    \<and> calls (snd (route_summary env client now src br s)) = calls s
    \<and> world (snd (route_summary env client now src br s)) = world s)
 \<and> (length (recent now (hits s (client, ''ingest_repository''))) < 5 \<and> valid_IngestRequest body \<longrightarrow>
      fst (route_ingest_post env client now body s) \<noteq> RateLimitExceeded)
 \<and> (length (recent now (hits s (client, ''ingest_repository_get''))) < 5 \<longrightarrow>
      fst (route_ingest_get env client now src mfs inc exc br s) \<noteq> RateLimitExceeded)
 \<and> (length (recent now (hits s (client, ''get_repository_summary''))) < 10 \<longrightarrow>
      fst (route_summary env client now src br s) \<noteq> RateLimitExceeded))
 \<and> ((valid_IngestRequest body \<and> hits s (client, ''ingest_repository'') = []
      \<and> (\<forall>t\<in>set ts. \<forall>t'\<in>set ts. t' < t + 60) \<and> i < length ts \<longrightarrow>
      (fst (serve (\<lambda>t. route_ingest_post env client t body) ts s) ! i = RateLimitExceeded) = (5 \<le> i))
 \<and> (hits s (client, ''ingest_repository_get'') = []
      \<and> (\<forall>t\<in>set ts. \<forall>t'\<in>set ts. t' < t + 60) \<and> i < length ts \<longrightarrow>
      (fst (serve (\<lambda>t. route_ingest_get env client t src mfs inc exc br) ts s) ! i = RateLimitExceeded)
        = (5 \<le> i))
 \<and> (hits s (client, ''get_repository_summary'') = []
      \<and> (\<forall>t\<in>set ts. \<forall>t'\<in>set ts. t' < t + 60) \<and> i < length ts \<longrightarrow>
      (fst (serve (\<lambda>t. route_summary env client t src br) ts s) ! i = RateLimitExceeded) = (10 \<le> i)))"
proof (rule conjI)
  show "(5 \<le> length (recent now (hits s (client, ''ingest_repository''))) \<and> valid_IngestRequest body \<longrightarrow>
      fst (route_ingest_post env client now body s) = RateLimitExceeded
    \<and> calls (snd (route_ingest_post env client now body s)) = calls s
    \<and> world (snd (route_ingest_post env client now body s)) = world s)
 \<and> (5 \<le> length (recent now (hits s (client, ''ingest_repository_get''))) \<longrightarrow>
      fst (route_ingest_get env client now src mfs inc exc br s) = RateLimitExceeded
    \<and> calls (snd (route_ingest_get env client now src mfs inc exc br s)) = calls s
    \<and> world (snd (route_ingest_get env client now src mfs inc exc br s)) = world s)
 \<and> (10 \<le> length (recent now (hits s (client, ''get_repository_summary''))) \<longrightarrow>
      fst (route_summary env client now src br s) = RateLimitExceeded
    \<and> calls (snd (route_summary env client now src br s)) = calls s
    \<and> world (snd (route_summary env client now src br s)) = world s)
 \<and> (length (recent now (hits s (client, ''ingest_repository''))) < 5 \<and> valid_IngestRequest body \<longrightarrow>
      fst (route_ingest_post env client now body s) \<noteq> RateLimitExceeded)
 \<and> (length (recent now (hits s (client, ''ingest_repository_get''))) < 5 \<longrightarrow>
      fst (route_ingest_get env client now src mfs inc exc br s) \<noteq> RateLimitExceeded)
 \<and> (length (recent now (hits s (client, ''get_repository_summary''))) < 10 \<longrightarrow>
      fst (route_summary env client now src br s) \<noteq> RateLimitExceeded)"
    by (simp add: route_ingest_post_def route_ingest_get_def route_summary_def limited_over limited_under
        handled_split ingest_repository_get_not_limited)
next
  show "(valid_IngestRequest body \<and> hits s (client, ''ingest_repository'') = []
      \<and> (\<forall>t\<in>set ts. \<forall>t'\<in>set ts. t' < t + 60) \<and> i < length ts \<longrightarrow>
      (fst (serve (\<lambda>t. route_ingest_post env client t body) ts s) ! i = RateLimitExceeded) = (5 \<le> i))
 \<and> (hits s (client, ''ingest_repository_get'') = []
      \<and> (\<forall>t\<in>set ts. \<forall>t'\<in>set ts. t' < t + 60) \<and> i < length ts \<longrightarrow>
      (fst (serve (\<lambda>t. route_ingest_get env client t src mfs inc exc br) ts s) ! i = RateLimitExceeded)
        = (5 \<le> i))
 \<and> (hits s (client, ''get_repository_summary'') = []
      \<and> (\<forall>t\<in>set ts. \<forall>t'\<in>set ts. t' < t + 60) \<and> i < length ts \<longrightarrow>
      (fst (serve (\<lambda>t. route_summary env client t src br) ts s) ! i = RateLimitExceeded) = (10 \<le> i))"
    using burst_post [of body s client ts i env] burst_get [of s client ts i env src mfs inc exc br]
      burst_summary [of s client ts i env src br]
    by (intro conjI impI) simp_all
qed

theorem rate_limits_witness:
  "fst (serve (\<lambda>t. route_ingest_post (mock_env (Inr remote_query) (Inr ()) ingested_ok) ''client'' t remote_request)
          [0, 10, 20, 30, 40, 59] started) ! 5 = RateLimitExceeded
   \<and> fst (serve (\<lambda>t. route_ingest_post (mock_env (Inr remote_query) (Inr ()) ingested_ok) ''client'' t remote_request)
          [0, 10, 20, 30, 40, 59] started) ! 4 \<noteq> RateLimitExceeded
   \<and> fst (route_ingest_post (mock_env (Inr remote_query) (Inr ()) ingested_ok) ''client'' 59 remote_request busy)
       = RateLimitExceeded
   \<and> calls (snd (route_ingest_post (mock_env (Inr remote_query) (Inr ()) ingested_ok) ''client'' 59 remote_request busy))
       = []
   \<and> fst (route_ingest_post (mock_env (Inr remote_query) (Inr ()) ingested_ok) ''client'' 70 remote_request busy)
       \<noteq> RateLimitExceeded"
proof -
  let ?env = "mock_env (Inr remote_query) (Inr ()) ingested_ok"
  let ?ts = "[0, 10, 20, 30, 40, 59::nat]"
  have v: "valid_IngestRequest remote_request"
    by (simp add: valid_IngestRequest_def remote_request_def)
  have h: "hits started (''client'', ''ingest_repository'') = []"
    by (simp add: started_def)
  have t: "\<forall>t\<in>set ?ts. \<forall>t'\<in>set ?ts. t' < t + 60"
    by simp
  have l5: "5 < length ?ts" and l4: "4 < length ?ts"
    by simp_all
  have five: "((5::nat) \<le> 5) = True" and four: "((5::nat) \<le> 4) = False" by simp_all
  have full: "5 \<le> length (recent 59 (hits busy (''client'', ''ingest_repository'')))"
    by (simp add: busy_def recent_def)
  have room: "length (recent 70 (hits busy (''client'', ''ingest_repository''))) < 5"
    by (simp add: busy_def recent_def)
  have none: "calls busy = []" by (simp add: busy_def)
  note at5 = rate_limits [of 59 busy "''client''" remote_request ?env "[]" None None None None ?ts 5,
      THEN conjunct1]
  note at70 = rate_limits [of 70 busy "''client''" remote_request ?env "[]" None None None None ?ts 5,
      THEN conjunct1]
  note b5 = rate_limits [of 0 started "''client''" remote_request ?env "[]" None None None None ?ts 5,
      THEN conjunct2, THEN conjunct1]
  note b4 = rate_limits [of 0 started "''client''" remote_request ?env "[]" None None None None ?ts 4,
      THEN conjunct2, THEN conjunct1]
  have "fst (serve (\<lambda>t. route_ingest_post ?env ''client'' t remote_request) ?ts started) ! 5 = RateLimitExceeded"
    using b5 v h t l5 by (simp only: five simp_thms)
  moreover have "fst (serve (\<lambda>t. route_ingest_post ?env ''client'' t remote_request) ?ts started) ! 4 \<noteq> RateLimitExceeded"
    using b4 v h t l4 by (simp only: four simp_thms)
  moreover have "fst (route_ingest_post ?env ''client'' 59 remote_request busy) = RateLimitExceeded"
    and "calls (snd (route_ingest_post ?env ''client'' 59 remote_request busy)) = []"
    using at5 full v none by simp_all
  moreover have "fst (route_ingest_post ?env ''client'' 70 remote_request busy) \<noteq> RateLimitExceeded"
    using at70 room v by blast
  ultimately show ?thesis by blast
qed

text \<open>
  Claim C10.  The branch of the request replaces the resolver's only when it is a
  non-empty string.  For a request without a branch, or with the empty string, the
  query handed to the ingestion is the resolver's, unchanged, and the metadata reports
  the resolver's branch, or \<open>default\<close>.  For a request with a non-empty branch
  \<open>b\<close>, the query handed on is the resolver's with its branch set to \<open>b\<close>, and the
  metadata reports \<open>b\<close>.
\<close>

theorem branch_override:
  assumes "fst (parse_query env (source body) (max_file_size body) True
                  (include_patterns body) (exclude_patterns body) (world s)) = Inr parsed"
      and "fst (ingest_repository env body s) = Returned r"
      and "success r"
  shows "(branch body = None \<or> branch body = Some [] \<longrightarrow>
            override_branch (branch body) parsed = parsed
          \<and> last (calls (snd (ingest_repository env body s))) = IngestQuery parsed
          \<and> (\<exists>m. metadata r = Some m
                 \<and> m ''branch'' = Some (py_or (query_branch parsed) ''default'')))
       \<and> (\<forall>b. branch body = Some b \<and> b \<noteq> [] \<longrightarrow>
            override_branch (branch body) parsed = parsed\<lparr>query_branch := Some b\<rparr>
          \<and> last (calls (snd (ingest_repository env body s)))
              = IngestQuery (parsed\<lparr>query_branch := Some b\<rparr>)
          \<and> (\<exists>m. metadata r = Some m \<and> m ''branch'' = Some b))"
proof -
  let ?q = "override_branch (branch body) parsed"
  from returned_success [OF assms] obtain res s2
    where r: "r = success_response ?q res"
      and s: "snd (ingest_repository env body s) = snd (ingest env ?q s2)" by blast
  have l: "last (calls (snd (ingest_repository env body s))) = IngestQuery ?q"
    by (simp add: s ingest_split)
  have m: "metadata r = Some (make_metadata ?q)" by (simp add: r success_response_fields)
  have b: "make_metadata ?q ''branch'' = Some (py_or (query_branch ?q) ''default'')"
    by (rule make_metadata_lookup)
  show ?thesis
  proof (intro conjI allI impI)
    assume h: "branch body = None \<or> branch body = Some []"
    then show q: "?q = parsed" by (auto simp: override_branch_def)
    show "last (calls (snd (ingest_repository env body s))) = IngestQuery parsed"
      using l q by simp
    show "\<exists>m. metadata r = Some m \<and> m ''branch'' = Some (py_or (query_branch parsed) ''default'')"
      using m b q by simp
  next
    fix b' assume h: "branch body = Some b' \<and> b' \<noteq> []"
    then show q: "?q = parsed\<lparr>query_branch := Some b'\<rparr>" by (simp add: override_branch_def)
    show "last (calls (snd (ingest_repository env body s))) = IngestQuery (parsed\<lparr>query_branch := Some b'\<rparr>)"
      using l q by simp
    show "\<exists>m. metadata r = Some m \<and> m ''branch'' = Some b'"
      using m b q h by simp
  qed
qed

theorem branch_override_witness:
  "fst (ingest_repository (mock_env (Inr remote_query) (Inr ()) ingested_ok)
          (remote_request\<lparr>branch := Some []\<rparr>) started)
     = Returned (success_response remote_query (''Files analyzed: 5'', ''src/'', ''FILE: src/main.py''))
   \<and> make_metadata remote_query ''branch'' = Some ''main''
   \<and> fst (ingest_repository (mock_env (Inr remote_query) (Inr ()) ingested_ok)
          (remote_request\<lparr>branch := Some ''develop''\<rparr>) started)
     = Returned (success_response (remote_query\<lparr>query_branch := Some ''develop''\<rparr>)
                   (''Files analyzed: 5'', ''src/'', ''FILE: src/main.py''))
   \<and> last (calls (snd (ingest_repository (mock_env (Inr remote_query) (Inr ()) ingested_ok)
          (remote_request\<lparr>branch := Some ''develop''\<rparr>) started)))
     = IngestQuery (remote_query\<lparr>query_branch := Some ''develop''\<rparr>)
   \<and> make_metadata (remote_query\<lparr>query_branch := Some ''develop''\<rparr>) ''branch'' = Some ''develop''
   \<and> fst (ingest_repository (mock_env (Inr local_query) (Inr ()) ingested_ok) local_request started)
     = Returned (success_response local_query (''Files analyzed: 5'', ''src/'', ''FILE: src/main.py''))
   \<and> make_metadata local_query ''branch'' = Some ''default''"
  using branch_override [of "mock_env (Inr remote_query) (Inr ()) ingested_ok"
      "remote_request\<lparr>branch := Some []\<rparr>" started remote_query
      "success_response remote_query (''Files analyzed: 5'', ''src/'', ''FILE: src/main.py'')"]
    branch_override [of "mock_env (Inr remote_query) (Inr ()) ingested_ok"
      "remote_request\<lparr>branch := Some ''develop''\<rparr>" started remote_query
      "success_response (remote_query\<lparr>query_branch := Some ''develop''\<rparr>)
          (''Files analyzed: 5'', ''src/'', ''FILE: src/main.py'')"]
  by (simp add: handler_simps mock_simps make_metadata_def)

end
